theory Spec2Isabelle
  imports Main "HOL-Library.Sublist" "HOL-Library.Multiset"
begin

section \<open>Python values\<close>

text \<open>
  The values that flow through the orchestrator and the workflow executor are the values
  of decoded JSON: \<open>None\<close>, booleans, integers, strings, lists and dictionaries.
  A dictionary keeps its insertion order, so it is an association list.
  Floating point numbers do not occur in any path that is modelled here.
\<close>

datatype json =
    JNull
  | JBool bool
  | JInt int
  | JStr string
  | JList "json list"
  | JDict "(string \<times> json) list"

text \<open>Python's truth value of an object, as used by \<open>not x\<close>, \<open>x or y\<close> and \<open>if x\<close>.\<close>

fun truthy :: "json \<Rightarrow> bool" where
  "truthy JNull = False"
| "truthy (JBool b) = b"
| "truthy (JInt n) = (n \<noteq> 0)"
| "truthy (JStr s) = (s \<noteq> [])"
| "truthy (JList xs) = (xs \<noteq> [])"
| "truthy (JDict kvs) = (kvs \<noteq> [])"

text \<open>\<open>a or b\<close>: the first operand when it is truthy, the second otherwise.\<close>

definition py_or :: "json \<Rightarrow> json \<Rightarrow> json" where
  "py_or a b = (if truthy a then a else b)"

fun is_str :: "json \<Rightarrow> bool" where
  "is_str (JStr s) = True"
| "is_str v = False"

fun str_of :: "json \<Rightarrow> string" where
  "str_of (JStr s) = s"
| "str_of v = []"

text \<open>\<open>d.get(k)\<close> is \<open>None\<close> for a missing key; \<open>d.get(k, default)\<close> is the default.\<close>

definition dict_get :: "(string \<times> json) list \<Rightarrow> string \<Rightarrow> json" where
  "dict_get d k = (case map_of d k of None \<Rightarrow> JNull | Some v \<Rightarrow> v)"

definition dict_get_default :: "(string \<times> json) list \<Rightarrow> string \<Rightarrow> json \<Rightarrow> json" where
  "dict_get_default d k dflt = (case map_of d k of None \<Rightarrow> dflt | Some v \<Rightarrow> v)"

section \<open>Strings\<close>

definition nl :: char where
  "nl = CHR 0x0A"

text \<open>\<open>sep.join(xs)\<close>.\<close>

fun py_join :: "string \<Rightarrow> string list \<Rightarrow> string" where
  "py_join sep [] = []"
| "py_join sep [x] = x"
| "py_join sep (x # y # ys) = x @ sep @ py_join sep (y # ys)"

definition sq :: char where
  "sq = CHR 0x27"

definition type_name :: "json \<Rightarrow> string" where
  "type_name v = (case v of JNull \<Rightarrow> ''NoneType'' | JBool b \<Rightarrow> ''bool'' | JInt n \<Rightarrow> ''int''
                  | JStr s \<Rightarrow> ''str'' | JList xs \<Rightarrow> ''list'' | JDict d \<Rightarrow> ''dict'')"

text \<open>\<open>s.split(c)\<close> for a one-character separator: never the empty list.\<close>

fun split_on :: "char \<Rightarrow> string \<Rightarrow> string list" where
  "split_on c [] = [[]]"
| "split_on c (x # xs) =
     (if x = c then [] # split_on c xs
      else (case split_on c xs of [] \<Rightarrow> [[x]] | w # ws \<Rightarrow> (x # w) # ws))"

definition startswith :: "string \<Rightarrow> string \<Rightarrow> bool" where
  "startswith s p = prefix p s"

text \<open>
  \<open>s.strip()\<close> removes leading and trailing white space. Characters are bytes here, so
  only the ASCII white space of Python is covered (tab, line feed, vertical tab, form
  feed, carriage return, the separators 0x1C to 0x1F, and the space).
\<close>

definition is_space :: "char \<Rightarrow> bool" where
  "is_space c = (c = CHR 0x09 \<or> c = CHR 0x0A \<or> c = CHR 0x0B \<or> c = CHR 0x0C \<or> c = CHR 0x0D
                 \<or> c = CHR 0x1C \<or> c = CHR 0x1D \<or> c = CHR 0x1E \<or> c = CHR 0x1F \<or> c = CHR 0x20)"

definition strip :: "string \<Rightarrow> string" where
  "strip s = rev (dropWhile is_space (rev (dropWhile is_space s)))"

definition bsl :: char where
  "bsl = CHR 0x5C"

text \<open>\<open>data.replace("\n", "\\n")\<close>: every line feed becomes a backslash and the letter n.\<close>

definition escape_newlines :: "string \<Rightarrow> string" where
  "escape_newlines s = concat (map (\<lambda>c. if c = nl then [bsl, CHR ''n''] else [c]) s)"

text \<open>\<open>data.replace("\\n", "\n")\<close>: every backslash followed by n becomes a line feed,
  scanning from the left.\<close>

fun unescape_newlines :: "string \<Rightarrow> string" where
  "unescape_newlines (a # b # xs) =
     (if a = bsl \<and> b = CHR ''n'' then nl # unescape_newlines xs
      else a # unescape_newlines (b # xs))"
| "unescape_newlines xs = xs"

text \<open>Decimal rendering of integers, as an f-string does it.\<close>

definition digit_char :: "nat \<Rightarrow> char" where
  "digit_char d = ''0123456789'' ! (d mod 10)"

function str_nat :: "nat \<Rightarrow> string" where
  "str_nat n = (if n < 10 then [digit_char n] else str_nat (n div 10) @ [digit_char (n mod 10)])"
  by pat_completeness auto
termination
  by (relation "measure id") auto

declare str_nat.simps [simp del]

definition str_int :: "int \<Rightarrow> string" where
  "str_int i = (if i < 0 then CHR ''-'' # str_nat (nat (- i)) else str_nat (nat i))"

section \<open>Paths\<close>

text \<open>
  POSIX paths. \<open>os.path\<close> works on strings; a \<open>pathlib\<close> path is its anchor (absolute or
  not) and its components, where empty components and \<open>.\<close> are dropped on construction
  and \<open>..\<close> is kept. The special root of exactly two leading slashes is not modelled.
  The file system has no symbolic links, so \<open>Path.resolve\<close> is \<open>os.path.abspath\<close>.
\<close>

definition isabs :: "string \<Rightarrow> bool" where
  "isabs s = startswith s ''/''"

definition basename :: "string \<Rightarrow> string" where
  "basename s = last (split_on CHR ''/'' s)"

record ppath =
  p_anchor :: bool
  p_parts :: "string list"

definition Path :: "string \<Rightarrow> ppath" where
  "Path s = \<lparr>p_anchor = isabs s,
            p_parts = filter (\<lambda>c. c \<noteq> [] \<and> c \<noteq> ''.'') (split_on CHR ''/'' s)\<rparr>"

text \<open>\<open>p / s\<close>: an absolute right operand replaces the left one.\<close>

definition path_div :: "ppath \<Rightarrow> string \<Rightarrow> ppath" where
  "path_div p s =
     (let q = Path s in
      if p_anchor q then q else \<lparr>p_anchor = p_anchor p, p_parts = p_parts p @ p_parts q\<rparr>)"

definition path_str :: "ppath \<Rightarrow> string" where
  "path_str p =
     (if p_anchor p then CHR ''/'' # py_join ''/'' (p_parts p)
      else if p_parts p = [] then ''.'' else py_join ''/'' (p_parts p))"

text \<open>\<open>p.name\<close>: the last component, which is \<open>..\<close> for a path that ends in \<open>..\<close>.\<close>

definition path_name :: "ppath \<Rightarrow> string" where
  "path_name p = (if p_parts p = [] then [] else last (p_parts p))"

text \<open>Lexical normalisation below the root: \<open>..\<close> removes a component, and is dropped at
  the root.\<close>

fun norm_parts :: "string list \<Rightarrow> string list \<Rightarrow> string list" where
  "norm_parts acc [] = acc"
| "norm_parts acc (c # cs) =
     (if c = [] \<or> c = ''.'' then norm_parts acc cs
      else if c = ''..'' then norm_parts (butlast acc) cs
      else norm_parts (acc @ [c]) cs)"

text \<open>The components of \<open>os.path.abspath(s)\<close> in the working directory \<open>wd\<close>.\<close>

definition abs_parts :: "string list \<Rightarrow> string \<Rightarrow> string list" where
  "abs_parts wd s = norm_parts (if isabs s then [] else wd) (split_on CHR ''/'' s)"

definition abs_str :: "string list \<Rightarrow> string" where
  "abs_str ps = CHR ''/'' # py_join ''/'' ps"

definition abspath :: "string list \<Rightarrow> string \<Rightarrow> string" where
  "abspath wd s = abs_str (abs_parts wd s)"

text \<open>The components of \<open>p.resolve()\<close>.\<close>

definition resolve_parts :: "string list \<Rightarrow> ppath \<Rightarrow> string list" where
  "resolve_parts wd p = norm_parts (if p_anchor p then [] else wd) (p_parts p)"

text \<open>A file lies inside a directory when the directory's components are the first
  components of the file's.\<close>

definition lies_inside :: "string list \<Rightarrow> string list \<Rightarrow> bool" where
  "lies_inside dir file = prefix dir file"

section \<open>Exceptions, the outside world, and the external collaborators\<close>

text \<open>An exception is its class name and its message (\<open>str(exc)\<close>).\<close>

datatype exc = PyExc string string

fun exc_str :: "exc \<Rightarrow> string" where
  "exc_str (PyExc cls m) = m"

definition attribute_error :: "json \<Rightarrow> string \<Rightarrow> exc" where
  "attribute_error v a =
     PyExc ''AttributeError''
       (sq # type_name v @ sq # '' object has no attribute '' @ sq # a @ [sq])"

text \<open>\<open>obj.get(k, default)\<close> on an object that may not be a dictionary.\<close>

definition py_get :: "json \<Rightarrow> string \<Rightarrow> json \<Rightarrow> exc + json" where
  "py_get obj k dflt =
     (case obj of JDict d \<Rightarrow> Inr (dict_get_default d k dflt) | _ \<Rightarrow> Inl (attribute_error obj ''get''))"

record agent =
  ag_id :: int
  ag_name :: string
  ag_role :: string
  ag_model_name :: string
  ag_backstory :: string
  ag_tools :: string

record task_log =
  log_id :: int
  log_agent_id :: int
  input_query :: string
  thought_process :: string
  final_output :: string

text \<open>The messages of the conversation, by role.\<close>

datatype msg =
    Msg_system string
  | Msg_user string
  | Msg_assistant string
  | Msg_assistant_tool_call string string string
  | Msg_tool string string string

text \<open>One structured tool call of a model response: identifier, name, argument text
  (empty for \<open>None\<close>).\<close>

record tool_call =
  tc_id :: string
  tc_name :: string
  tc_arguments :: string

text \<open>The message of the first choice of a response: \<open>content\<close> is empty for \<open>None\<close>, and
  \<open>tool_calls\<close> is empty for \<open>None\<close> or a missing attribute.\<close>

record chat_message =
  content :: string
  tool_calls :: "tool_call list"

text \<open>
  What the program did to the outside: calls of the mail capability (recipients, subject,
  body), files written by the report generator, files opened by the image tool, the
  rows of the task log table, and the number of chat completions requested.
\<close>

record world =
  mail_calls :: "(json \<times> json \<times> json) list"
  files_written :: "string list"
  files_opened :: "string list"
  task_logs :: "task_log list"
  model_queries :: nat

text \<open>
  The collaborators outside the repository, as parameters: the working directory, the
  \<open>json\<close> module (\<open>None\<close> is \<open>JSONDecodeError\<close>), \<open>str\<close> of an object that is not a string,
  \<open>int\<close> of a string, the file system, the PDF library, the HTTP fetch with its HTML
  extraction, SMTP, the chat completion endpoint (an error also stands for a response
  without choices), and the database session. Each may depend on the world so far.
  \<open>json.loads\<close> follows its documented contract: it returns a value or raises
  \<open>JSONDecodeError\<close>; the limits of the interpreter (recursion depth, size of integer
  literals, memory) are outside the model. \<open>db_commit\<close> stands for \<open>session.add\<close>,
  \<open>session.commit\<close> and \<open>session.refresh\<close>: it returns the id of the new row, or raises and
  stores nothing. \<open>event_loop_running\<close> says whether the caller runs inside an asyncio
  event loop. \<open>system_prompt\<close> is the text that \<open>_build_system_prompt\<close> assembles; it
  raises nothing and only the model reads it.
\<close>

record env =
  cwd :: "string list"
  json_loads :: "string \<Rightarrow> json option"
  json_dumps :: "json \<Rightarrow> string"
  py_repr :: "json \<Rightarrow> string"
  py_int :: "string \<Rightarrow> int option"
  fs_is_file :: "world \<Rightarrow> string \<Rightarrow> bool"
  fs_open :: "world \<Rightarrow> string \<Rightarrow> exc option"
  fs_mkdir :: "world \<Rightarrow> string \<Rightarrow> exc option"
  fpdf_render :: "world \<Rightarrow> json \<Rightarrow> json \<Rightarrow> exc option"
  fpdf_output :: "world \<Rightarrow> string \<Rightarrow> exc option"
  vision_chat :: "world \<Rightarrow> string \<Rightarrow> json \<Rightarrow> string \<Rightarrow> exc + string"
  http_scrape :: "world \<Rightarrow> json \<Rightarrow> exc + string"
  event_loop_running :: bool
  smtp_send :: "world \<Rightarrow> json \<Rightarrow> json \<Rightarrow> json \<Rightarrow> exc option"
  chat :: "world \<Rightarrow> string \<Rightarrow> msg list \<Rightarrow> string list \<Rightarrow> exc + chat_message"
  db_get_agent :: "world \<Rightarrow> int \<Rightarrow> exc + agent option"
  db_commit :: "world \<Rightarrow> int \<Rightarrow> string \<Rightarrow> string \<Rightarrow> string \<Rightarrow> exc + int"
  system_prompt :: "agent \<Rightarrow> string"

definition py_str :: "env \<Rightarrow> json \<Rightarrow> string" where
  "py_str E v = (case v of JStr s \<Rightarrow> s | _ \<Rightarrow> py_repr E v)"

section \<open>The capabilities\<close>

subsection \<open>Report generation (\<open>tools/pdf_tool.py\<close>)\<close>

text \<open>
  \<open>PDFReportTool.generate_report\<close> lays the document out (the PDF library may raise),
  takes \<open>os.path.abspath(filename)\<close>, creates its directory and writes the file (either
  may raise), and returns the absolute path.
\<close>

definition generate_report :: "env \<Rightarrow> json \<Rightarrow> json \<Rightarrow> string \<Rightarrow> world \<Rightarrow> (exc + string) \<times> world" where
  "generate_report E title body filename w =
     (case fpdf_render E w title body of
        Some e \<Rightarrow> (Inl e, w)
      | None \<Rightarrow>
          (let output_path = abspath (cwd E) filename in
           case fpdf_output E w output_path of
             Some e \<Rightarrow> (Inl e, w)
           | None \<Rightarrow> (Inr output_path, w\<lparr>files_written := files_written w @ [output_path]\<rparr>)))"

subsection \<open>Image analysis (\<open>tools/vision_tool.py\<close>)\<close>

definition DEFAULT_VISION_MODEL :: string where
  "DEFAULT_VISION_MODEL = ''llama3.2-vision:11b''"

text \<open>\<open>UPLOADS_DIR = Path("uploads").resolve()\<close>, as components.\<close>

definition UPLOADS_DIR :: "env \<Rightarrow> string list" where
  "UPLOADS_DIR E = resolve_parts (cwd E) (Path ''uploads'')"

text \<open>
  \<^verbatim>\<open>
  img_path = Path(image_path).resolve()
  if not str(img_path).startswith(str(UPLOADS_DIR)): raise ValueError(...)
  if not img_path.is_file(): raise FileNotFoundError(...)
  with img_path.open("rb") as f: img_bytes = f.read()
  ... response = client.chat.completions.create(...)
  return response.choices[0].message.content or ""
  \<close>
\<close>

definition analyze_image :: "env \<Rightarrow> json \<Rightarrow> json \<Rightarrow> string \<Rightarrow> world \<Rightarrow> (exc + string) \<times> world" where
  "analyze_image E image_path prompt model_name w =
     (case image_path of
        JStr s \<Rightarrow>
          (let img_path = abs_str (resolve_parts (cwd E) (Path s)) in
           if \<not> startswith img_path (abs_str (UPLOADS_DIR E)) then
             (Inl (PyExc ''ValueError'' ''Image path is not within the allowed uploads directory.''), w)
           else if \<not> fs_is_file E w img_path then
             (Inl (PyExc ''FileNotFoundError'' (''Image not found at '' @ img_path)), w)
           else
             (case fs_open E w img_path of
                Some e \<Rightarrow> (Inl e, w)
              | None \<Rightarrow>
                  (let w' = w\<lparr>files_opened := files_opened w @ [img_path]\<rparr>;
                       user_prompt = py_or prompt
                         (JStr ''Describe this image in detail, focusing on any data, patterns, or key elements.'')
                   in (vision_chat E w'
                         (if model_name = [] then DEFAULT_VISION_MODEL else model_name)
                         user_prompt img_path, w'))))
      | _ \<Rightarrow>
          (Inl (PyExc ''TypeError''
                 (''expected str, bytes or os.PathLike object, not '' @ type_name image_path)), w))"

subsection \<open>Mail (\<open>tools/mail_tool.py\<close>)\<close>

text \<open>Every invocation of \<open>MailTool.send_email\<close> is recorded, whether or not the delivery
  succeeds.\<close>

definition send_email :: "env \<Rightarrow> json \<Rightarrow> json \<Rightarrow> json \<Rightarrow> world \<Rightarrow> exc option \<times> world" where
  "send_email E to subject body w =
     (smtp_send E w to subject body, w\<lparr>mail_calls := mail_calls w @ [(to, subject, body)]\<rparr>)"

text \<open>\<open>sep.join(v)\<close> for an object \<open>v\<close>: a dictionary is iterated by its keys.\<close>

definition join_json :: "string \<Rightarrow> json \<Rightarrow> exc + string" where
  "join_json sep v =
     (case v of
        JList xs \<Rightarrow>
          (if list_all is_str xs then Inr (py_join sep (map str_of xs))
           else Inl (PyExc ''TypeError'' ''sequence item: expected str instance''))
      | JDict d \<Rightarrow> Inr (py_join sep (map fst d))
      | JStr s \<Rightarrow> Inr (py_join sep (map (\<lambda>c. [c]) s))
      | _ \<Rightarrow> Inl (PyExc ''TypeError'' ''can only join an iterable''))"

section \<open>Tool execution (\<open>app/engine/orchestrator.py\<close>)\<close>

definition REPORTS_DIR :: ppath where
  "REPORTS_DIR = Path ''reports''"

definition TOOL_ALIASES :: "(string \<times> string) list" where
  "TOOL_ALIASES =
     [(''pdf_report_tool'', ''generate_pdf_report''),
      (''pdf_tool'', ''generate_pdf_report''),
      (''scraper_tool'', ''web_scraper_tool''),
      (''web_scraper'', ''web_scraper_tool'')]"

text \<open>\<open>_TOOL_ALIASES.get(tool_name, tool_name)\<close> for a string.\<close>

definition resolve_alias :: "string \<Rightarrow> string" where
  "resolve_alias tn = (case map_of TOOL_ALIASES tn of Some a \<Rightarrow> a | None \<Rightarrow> tn)"

type_synonym tool_result = "string \<times> string option"

text \<open>
  The four branches of the inner \<open>try\<close> block. Each returns the pair that the branch
  returns, or the exception raised inside it.
  \<^verbatim>\<open>
  title    = args.get("title", "AI Research Report")
  content  = args.get("content", "")
  raw_file = args.get("filename", "report.pdf")
  if os.path.isabs(raw_file): raw_file = os.path.basename(raw_file)
  REPORTS_DIR.mkdir(parents=True, exist_ok=True)
  path = pdf_tool.generate_report(title=title, content=content,
                                  filename=str(REPORTS_DIR / raw_file))
  return f"SUCCESS: PDF saved to '{path}'.", path
  \<close>
\<close>

definition pdf_filename :: "string \<Rightarrow> string" where
  "pdf_filename raw_file =
     path_str (path_div REPORTS_DIR (if isabs raw_file then basename raw_file else raw_file))"

definition run_generate_pdf_report :: "env \<Rightarrow> json \<Rightarrow> world \<Rightarrow> (exc + tool_result) \<times> world" where
  "run_generate_pdf_report E args w =
     (case args of
        JDict d \<Rightarrow>
          (let title = dict_get_default d ''title'' (JStr ''AI Research Report'');
               body = dict_get_default d ''content'' (JStr []);
               raw_file = dict_get_default d ''filename'' (JStr ''report.pdf'')
           in case raw_file of
                JStr f \<Rightarrow>
                  (case fs_mkdir E w (path_str REPORTS_DIR) of
                     Some e \<Rightarrow> (Inl e, w)
                   | None \<Rightarrow>
                       (case generate_report E title body (pdf_filename f) w of
                          (Inl e, w') \<Rightarrow> (Inl e, w')
                        | (Inr path, w') \<Rightarrow>
                            (Inr (''SUCCESS: PDF saved to '' @ sq # path @ sq # ''.'', Some path), w')))
              | _ \<Rightarrow>
                  (Inl (PyExc ''TypeError''
                         (''expected str, bytes or os.PathLike object, not '' @ type_name raw_file)), w))
      | _ \<Rightarrow> (Inl (attribute_error args ''get''), w))"

definition run_analyze_image :: "env \<Rightarrow> json \<Rightarrow> string \<Rightarrow> world \<Rightarrow> (exc + tool_result) \<times> world" where
  "run_analyze_image E args model_name w =
     (case args of
        JDict d \<Rightarrow>
          (let img = dict_get d ''image_path'' in
           if \<not> truthy img then (Inr (''ERROR: image_path is required.'', None), w)
           else
             (case analyze_image E img (dict_get d ''prompt'') model_name w of
                (Inl e, w') \<Rightarrow> (Inl e, w')
              | (Inr desc, w') \<Rightarrow> (Inr (''Image analysis result:'' @ nl # desc, None), w')))
      | _ \<Rightarrow> (Inl (attribute_error args ''get''), w))"

text \<open>\<open>asyncio.run\<close> refuses to start inside a running event loop; otherwise it runs
  \<open>WebScraperTool.scrape_url\<close> to its end.\<close>

definition asyncio_run_scrape :: "env \<Rightarrow> world \<Rightarrow> json \<Rightarrow> exc + string" where
  "asyncio_run_scrape E w url =
     (if event_loop_running E
      then Inl (PyExc ''RuntimeError'' ''asyncio.run() cannot be called from a running event loop'')
      else http_scrape E w url)"

definition run_web_scraper_tool :: "env \<Rightarrow> json \<Rightarrow> world \<Rightarrow> (exc + tool_result) \<times> world" where
  "run_web_scraper_tool E args w =
     (case args of
        JDict d \<Rightarrow>
          (let url = py_or (dict_get d ''url'') (py_or (dict_get d ''target_url'') (dict_get d ''source'')) in
           if \<not> truthy url then (Inr (''ERROR: '' @ sq # ''url'' @ sq # '' is required for web scraping.'', None), w)
           else
             (case asyncio_run_scrape E w url of
                Inl e \<Rightarrow> (Inl e, w)
              | Inr txt \<Rightarrow>
                  (Inr (''Scraped content from '' @ py_str E url @ '':'' @ nl # take 3000 txt, None), w)))
      | _ \<Rightarrow> (Inl (attribute_error args ''get''), w))"

definition run_send_email :: "env \<Rightarrow> json \<Rightarrow> world \<Rightarrow> (exc + tool_result) \<times> world" where
  "run_send_email E args w =
     (case args of
        JDict d \<Rightarrow>
          (let to0 = py_or (dict_get d ''to'') (JList []);
               subject = py_or (dict_get d ''subject'') (JStr ''AgentFlow Local Report'');
               body = py_or (dict_get d ''body'') (JStr []);
               to = (if is_str to0 then JList [to0] else to0)
           in if \<not> truthy to
              then (Inr (''ERROR: '' @ sq # ''to'' @ sq # '' (recipient list) is required.'', None), w)
              else
                (case send_email E to subject body w of
                   (Some e, w') \<Rightarrow> (Inl e, w')
                 | (None, w') \<Rightarrow>
                     (case join_json '', '' to of
                        Inl e \<Rightarrow> (Inl e, w')
                      | Inr s \<Rightarrow> (Inr (''SUCCESS: email dispatched to '' @ s @ ''.'', None), w'))))
      | _ \<Rightarrow> (Inl (attribute_error args ''get''), w))"

text \<open>The chain of \<open>if name == ...\<close> inside the \<open>try\<close>: \<open>Inr None\<close> when no branch is taken.\<close>

definition tool_branches ::
  "env \<Rightarrow> string \<Rightarrow> json \<Rightarrow> string \<Rightarrow> world \<Rightarrow> (exc + tool_result option) \<times> world" where
  "tool_branches E name args model_name w =
     (if name = ''generate_pdf_report'' then
        (case run_generate_pdf_report E args w of (r, w') \<Rightarrow> (map_sum id Some r, w'))
      else if name = ''analyze_image'' then
        (case run_analyze_image E args model_name w of (r, w') \<Rightarrow> (map_sum id Some r, w'))
      else if name = ''web_scraper_tool'' then
        (case run_web_scraper_tool E args w of (r, w') \<Rightarrow> (map_sum id Some r, w'))
      else if name = ''send_email'' then
        (case run_send_email E args w of (r, w') \<Rightarrow> (map_sum id Some r, w'))
      else (Inr None, w))"

text \<open>
  \<^verbatim>\<open>
  def _execute_tool(tool_name, arguments_json, model_name):
      try:
          args = json.loads(arguments_json) if arguments_json else {}
      except json.JSONDecodeError:
          return "ERROR: tool arguments could not be parsed as JSON.", None
      name = _TOOL_ALIASES.get(tool_name, tool_name)
      try:
          ... the four branches ...
      except Exception as exc:
          return f"ERROR while executing '{name}': {exc}", None
      return f"ERROR: unknown tool '{tool_name}'.", None
  \<close>
  The declared type of \<open>tool_name\<close> is \<open>str\<close>, and the structured path passes a string. The
  inline path passes whatever the decoded JSON holds under the tool key, so the name is a
  value here: a list or a dictionary cannot be hashed, and the alias lookup, which is
  outside both \<open>try\<close> blocks, raises; any other value that is not a string is no alias
  and equals no tool name.
\<close>

definition decode_arguments :: "env \<Rightarrow> string \<Rightarrow> json option" where
  "decode_arguments E arguments_json =
     (if arguments_json = [] then Some (JDict []) else json_loads E arguments_json)"

definition execute_tool ::
  "env \<Rightarrow> json \<Rightarrow> string \<Rightarrow> string \<Rightarrow> world \<Rightarrow> (exc + tool_result) \<times> world" where
  "execute_tool E tool_name arguments_json model_name w =
     (case decode_arguments E arguments_json of
        None \<Rightarrow> (Inr (''ERROR: tool arguments could not be parsed as JSON.'', None), w)
      | Some args \<Rightarrow>
          (case tool_name of
             JStr tn \<Rightarrow>
               (let name = resolve_alias tn in
                case tool_branches E name args model_name w of
                  (Inl e, w') \<Rightarrow>
                    (Inr (''ERROR while executing '' @ sq # name @ sq # '': '' @ exc_str e, None), w')
                | (Inr (Some r), w') \<Rightarrow> (Inr r, w')
                | (Inr None, w') \<Rightarrow> (Inr (''ERROR: unknown tool '' @ sq # tn @ sq # ''.'', None), w'))
           | JList xs \<Rightarrow> (Inl (PyExc ''TypeError'' ''unhashable type: list''), w)
           | JDict d \<Rightarrow> (Inl (PyExc ''TypeError'' ''unhashable type: dict''), w)
           | _ \<Rightarrow>
               (Inr (''ERROR: unknown tool '' @ sq # py_str E tool_name @ sq # ''.'', None), w)))"

section \<open>The reasoning loop (\<open>app/engine/orchestrator.py\<close>)\<close>

subsection \<open>Events and frames\<close>

datatype event_kind = Thought | Action | Observation | Final | Error | Done

fun kind_name :: "event_kind \<Rightarrow> string" where
  "kind_name Thought = ''thought''"
| "kind_name Action = ''action''"
| "kind_name Observation = ''observation''"
| "kind_name Final = ''final''"
| "kind_name Error = ''error''"
| "kind_name Done = ''done''"

type_synonym event = "event_kind \<times> string"

text \<open>
  \<^verbatim>\<open>
  def _sse(event, data):
      payload = data.replace("\n", "\\n")
      return f"event: {event}\ndata: {payload}\n\n"
  \<close>
\<close>

definition sse :: "event \<Rightarrow> string" where
  "sse ev = ''event: '' @ kind_name (fst ev) @ nl # ''data: '' @ escape_newlines (snd ev) @ [nl, nl]"

subsection \<open>Prompt and tool schemas\<close>

definition DEFAULT_MODEL_NAME :: string where
  "DEFAULT_MODEL_NAME = ''mistral:7b''"

definition MAX_REACT_STEPS :: nat where
  "MAX_REACT_STEPS = 10"

text \<open>The tool names stored with the agent: a JSON list, or one bare name when the text
  is not JSON.\<close>

definition tool_names :: "env \<Rightarrow> agent \<Rightarrow> string list" where
  "tool_names E a =
     (if ag_tools a = [] then []
      else (case json_loads E (ag_tools a) of
              None \<Rightarrow> [ag_tools a]
            | Some (JList ts) \<Rightarrow> map (py_str E) ts
            | Some v \<Rightarrow> []))"

text \<open>A schema is represented by the name it declares.\<close>

definition SCHEMA_MAPPING :: "(string \<times> string) list" where
  "SCHEMA_MAPPING =
     [(''pdf_report_tool'', ''generate_pdf_report''),
      (''vision_analysis_tool'', ''analyze_image''),
      (''web_scraper_tool'', ''web_scraper_tool''),
      (''send_email'', ''send_email'')]"

definition get_tool_schemas :: "env \<Rightarrow> agent \<Rightarrow> string list" where
  "get_tool_schemas E a = List.map_filter (map_of SCHEMA_MAPPING) (tool_names E a)"

subsection \<open>Inline tool calls\<close>

text \<open>The match of \<open>\{.*\}\<close> with \<open>re.DOTALL\<close>: from the first opening brace to the last
  closing brace after it.\<close>

definition brace_span :: "string \<Rightarrow> string option" where
  "brace_span s =
     (let t = dropWhile (\<lambda>c. c \<noteq> CHR ''{'') s;
          r = dropWhile (\<lambda>c. c \<noteq> CHR ''}'') (rev t)
      in if r = [] then None else Some (rev r))"

text \<open>
  \<^verbatim>\<open>
  def _parse_inline_tool_call(text):
      if not text: return None
      match = re.search(r"\{.*\}", text, re.DOTALL)
      if not match: return None
      try: obj = json.loads(match.group(0))
      except json.JSONDecodeError: return None
      name = obj.get("tool") or obj.get("tool_name") or obj.get("name")
      if not name: return None
      raw_args = obj.get("arguments") or obj.get("args") or obj.get("params") or {}
      if isinstance(raw_args, str):
          try: raw_args = json.loads(raw_args)
          except json.JSONDecodeError: raw_args = {}
      if not isinstance(raw_args, dict): raw_args = {}
      return name, raw_args
  \<close>
\<close>

definition parse_inline_tool_call :: "env \<Rightarrow> string \<Rightarrow> exc + (json \<times> json) option" where
  "parse_inline_tool_call E txt =
     (if txt = [] then Inr None
      else (case brace_span txt of
              None \<Rightarrow> Inr None
            | Some m \<Rightarrow>
                (case json_loads E m of
                   None \<Rightarrow> Inr None
                 | Some (JDict d) \<Rightarrow>
                     (let name = py_or (dict_get d ''tool'') (py_or (dict_get d ''tool_name'') (dict_get d ''name'')) in
                      if \<not> truthy name then Inr None
                      else
                        (let raw0 = py_or (dict_get d ''arguments'')
                                      (py_or (dict_get d ''args'') (py_or (dict_get d ''params'') (JDict [])));
                             raw1 = (case raw0 of
                                       JStr s \<Rightarrow> (case json_loads E s of None \<Rightarrow> JDict [] | Some v \<Rightarrow> v)
                                     | _ \<Rightarrow> raw0);
                             raw_args = (case raw1 of JDict a \<Rightarrow> raw1 | _ \<Rightarrow> JDict [])
                         in Inr (Some (name, raw_args))))
                 | Some obj \<Rightarrow> Inl (attribute_error obj ''get''))))"

subsection \<open>One run\<close>

text \<open>The local variables of the generator, the frames it has yielded so far (as events),
  and the world.\<close>

record run_state =
  messages :: "msg list"
  thought_log :: "string list"
  events :: "event list"
  last_artifact_path :: "string option"
  rworld :: world

definition ellipsis :: string where
  "ellipsis = [CHR 0xE2, CHR 0x80, CHR 0xA6]"

text \<open>\<open>if artifact: last_artifact_path = artifact\<close>.\<close>

definition keep_artifact :: "string option \<Rightarrow> string option \<Rightarrow> string option" where
  "keep_artifact artifact previous =
     (case artifact of None \<Rightarrow> previous | Some p \<Rightarrow> if p = [] then previous else Some p)"

text \<open>
  The loop \<open>for tc in tool_calls\<close> of one step: for each call an action event, the tool,
  an observation event, and two messages. The result carries the exception if the tool
  invoker raised.
\<close>

fun drain_tool_calls :: "env \<Rightarrow> string \<Rightarrow> nat \<Rightarrow> tool_call list \<Rightarrow> run_state \<Rightarrow> exc option \<times> run_state" where
  "drain_tool_calls E model_name step [] st = (None, st)"
| "drain_tool_calls E model_name step (tc # tcs) st =
     (let t_name = tc_name tc;
          t_args = (if tc_arguments tc = [] then ''{}'' else tc_arguments tc);
          st1 = st\<lparr>events := events st @
                      [(Action, ''[ACTION] Executing tool: '' @ t_name @ nl # ''Args: '' @ t_args)],
                   thought_log := thought_log st @
                      [''ACTION (step '' @ str_nat step @ ''): '' @ t_name @ '' | '' @ t_args]\<rparr>
      in case execute_tool E (JStr t_name) t_args model_name (rworld st1) of
           (Inl e, w') \<Rightarrow> (Some e, st1\<lparr>rworld := w'\<rparr>)
         | (Inr (observation, artifact), w') \<Rightarrow>
             drain_tool_calls E model_name step tcs
               (st1\<lparr>rworld := w',
                    last_artifact_path := keep_artifact artifact (last_artifact_path st1),
                    thought_log := thought_log st1 @
                      [''OBSERVATION (step '' @ str_nat step @ ''): '' @ observation],
                    events := events st1 @ [(Observation, ''[OBSERVATION] '' @ observation)],
                    messages := messages st1 @
                      [Msg_assistant_tool_call (tc_id tc) t_name t_args,
                       Msg_tool (tc_id tc) t_name observation]\<rparr>))"

text \<open>The inline fallback of one step, for a parsed name and argument dictionary.\<close>

definition inline_tool_call :: "env \<Rightarrow> string \<Rightarrow> nat \<Rightarrow> json \<Rightarrow> json \<Rightarrow> run_state \<Rightarrow> exc option \<times> run_state" where
  "inline_tool_call E model_name step t_name t_args_dict st =
     (let t_args = json_dumps E t_args_dict;
          st1 = st\<lparr>events := events st @
                      [(Action, ''[ACTION] Intercepted inline tool call: '' @ py_str E t_name @ nl # ''Args: '' @ t_args)],
                   thought_log := thought_log st @
                      [''ACTION (step '' @ str_nat step @ ''): '' @ py_str E t_name @ '' | '' @ t_args]\<rparr>
      in case execute_tool E t_name t_args model_name (rworld st1) of
           (Inl e, w') \<Rightarrow> (Some e, st1\<lparr>rworld := w'\<rparr>)
         | (Inr (observation, artifact), w') \<Rightarrow>
             (None,
              st1\<lparr>rworld := w',
                  last_artifact_path := keep_artifact artifact (last_artifact_path st1),
                  thought_log := thought_log st1 @
                    [''OBSERVATION (step '' @ str_nat step @ ''): '' @ observation],
                  events := events st1 @ [(Observation, ''[OBSERVATION] '' @ observation)],
                  messages := messages st1 @
                    [Msg_assistant (''[Tool '' @ sq # py_str E t_name @ sq # '' executed.]'' @ nl # observation)]\<rparr>))"

text \<open>How one pass through the body of the \<open>for step in range(MAX_REACT_STEPS)\<close> loop
  ends: \<open>continue\<close>, \<open>break\<close> (with the final answer, if any), or an exception.\<close>

datatype step_result =
    Continue run_state
  | Break "string option" run_state
  | Raise exc run_state

text \<open>The start of a pass: the progress event, and the request to the model is counted.\<close>

definition begin_step :: "string \<Rightarrow> nat \<Rightarrow> run_state \<Rightarrow> run_state" where
  "begin_step model_name step st =
     st\<lparr>events := events st @
            [(Thought, ''[Step '' @ str_nat (step + 1) @ ''] Querying model '' @ model_name @ ellipsis)],
        rworld := (rworld st)\<lparr>model_queries := Suc (model_queries (rworld st))\<rparr>\<rparr>"

text \<open>Part 1 of the body: \<open>if message.content:\<close> log and yield the text as a thought.\<close>

definition note_thought :: "nat \<Rightarrow> chat_message \<Rightarrow> run_state \<Rightarrow> run_state" where
  "note_thought step message st =
     (if content message \<noteq> []
      then st\<lparr>thought_log := thought_log st @
                  [''THOUGHT (step '' @ str_nat step @ ''): '' @ content message],
              events := events st @ [(Thought, content message)]\<rparr>
      else st)"

text \<open>Parts 2a, 2b, 3 and 4 of the body: structured tool calls, the inline fallback, the
  final answer, the empty response.\<close>

definition act_on_message :: "env \<Rightarrow> string \<Rightarrow> nat \<Rightarrow> chat_message \<Rightarrow> run_state \<Rightarrow> step_result" where
  "act_on_message E model_name step message st =
     (if tool_calls message \<noteq> [] then
        (case drain_tool_calls E model_name step (tool_calls message) st of
           (Some e, st') \<Rightarrow> Raise e st'
         | (None, st') \<Rightarrow> Continue st')
      else if content message \<noteq> [] then
        (case parse_inline_tool_call E (content message) of
           Inl e \<Rightarrow> Raise e st
         | Inr (Some (t_name, t_args_dict)) \<Rightarrow>
             (case inline_tool_call E model_name step t_name t_args_dict st of
                (Some e, st') \<Rightarrow> Raise e st'
              | (None, st') \<Rightarrow> Continue st')
         | Inr None \<Rightarrow> Break (Some (content message)) st)
      else Break None st)"

definition react_step :: "env \<Rightarrow> string \<Rightarrow> string list \<Rightarrow> nat \<Rightarrow> run_state \<Rightarrow> step_result" where
  "react_step E model_name tool_schemas step st =
     (let st1 = begin_step model_name step st in
      case chat E (rworld st1) model_name (messages st1) tool_schemas of
        Inl e \<Rightarrow> Raise e st1
      | Inr message \<Rightarrow> act_on_message E model_name step message (note_thought step message st1))"

text \<open>The loop, with \<open>n\<close> passes left and \<open>step\<close> the value of the loop variable. The result
  is the exception that left the loop, if any, the final answer, and the state.\<close>

fun react_loop ::
  "env \<Rightarrow> string \<Rightarrow> string list \<Rightarrow> nat \<Rightarrow> nat \<Rightarrow> run_state \<Rightarrow> exc option \<times> string option \<times> run_state" where
  "react_loop E model_name tool_schemas 0 step st = (None, None, st)"
| "react_loop E model_name tool_schemas (Suc n) step st =
     (case react_step E model_name tool_schemas step st of
        Raise e st' \<Rightarrow> (Some e, None, st')
      | Break fa st' \<Rightarrow> (None, fa, st')
      | Continue st' \<Rightarrow> react_loop E model_name tool_schemas n (Suc step) st')"

definition NO_FINAL_TEXT :: string where
  "NO_FINAL_TEXT = ''The agent completed its reasoning but produced no final text response.''"

definition DONE_EVENT :: event where
  "DONE_EVENT = (Done, ''[DONE]'')"

definition fatal_event :: "exc \<Rightarrow> event" where
  "fatal_event e = (Error, ''Fatal error: '' @ exc_str e)"

definition initial_state :: "env \<Rightarrow> agent \<Rightarrow> string \<Rightarrow> string \<Rightarrow> world \<Rightarrow> run_state" where
  "initial_state E a user_prompt image_path w =
     \<lparr>messages =
        [Msg_system (system_prompt E a),
         Msg_user (user_prompt @
           (if image_path \<noteq> []
            then [nl, nl] @ ''[Note: an image is available at the server path below. ''
                 @ ''Call the vision tool if you need to inspect it.]'' @ nl # ''image_path: '' @ image_path
            else []))],
      thought_log =
        (''USER: '' @ user_prompt) # (if image_path \<noteq> [] then [''USER IMAGE: '' @ image_path] else []),
      events = [],
      last_artifact_path = None,
      rworld = w\<rparr>"

definition final_payload :: "int \<Rightarrow> int \<Rightarrow> string \<Rightarrow> string option \<Rightarrow> json" where
  "final_payload new_id aid final_answer artifact =
     JDict [(''task_log_id'', JInt new_id),
            (''agent_id'', JInt aid),
            (''final_output'', JStr final_answer),
            (''artifact_path'', (case artifact of None \<Rightarrow> JNull | Some p \<Rightarrow> JStr p))]"

text \<open>
  The events of \<open>stream_agent_task\<close>, in the order of their frames, and the world after the
  run. An empty \<open>image_path\<close> stands for \<open>None\<close>. The client and the session are
  constructed before the \<open>try\<close>; their construction does not fail here. The \<open>except\<close>
  clause turns any exception of the body into an error event, and the \<open>finally\<close> clause
  yields the done event on every path. When the agent is not found, the body yields the
  error event and the done event and returns; the \<open>return\<close> is inside the \<open>try\<close>, so the
  \<open>finally\<close> clause runs after it and yields the done event once more.
\<close>

text \<open>The loop of one run for an agent: its model (or the default), its tool schemas, the
  step budget, and the initial state.\<close>

definition run_of :: "env \<Rightarrow> agent \<Rightarrow> string \<Rightarrow> string \<Rightarrow> world \<Rightarrow> exc option \<times> string option \<times> run_state" where
  "run_of E a user_prompt image_path w =
     react_loop E (if ag_model_name a = [] then DEFAULT_MODEL_NAME else ag_model_name a)
       (get_tool_schemas E a) MAX_REACT_STEPS 0 (initial_state E a user_prompt image_path w)"

text \<open>\<open>if final_answer is None: final_answer = "The agent completed ..."\<close>.\<close>

definition answer_of :: "string option \<Rightarrow> string" where
  "answer_of fa = (case fa of None \<Rightarrow> NO_FINAL_TEXT | Some t \<Rightarrow> t)"

definition new_log :: "int \<Rightarrow> agent \<Rightarrow> string \<Rightarrow> run_state \<Rightarrow> string option \<Rightarrow> task_log" where
  "new_log new_id a user_prompt st fa =
     \<lparr>log_id = new_id, log_agent_id = ag_id a, input_query = user_prompt,
      thought_process = py_join [nl] (thought_log st), final_output = answer_of fa\<rparr>"

definition agent_events :: "env \<Rightarrow> int \<Rightarrow> string \<Rightarrow> string \<Rightarrow> world \<Rightarrow> event list \<times> world" where
  "agent_events E agent_id user_prompt image_path w =
     (case db_get_agent E w agent_id of
        Inl e \<Rightarrow> ([fatal_event e, DONE_EVENT], w)
      | Inr None \<Rightarrow>
          ([(Error, ''Agent #'' @ str_int agent_id @ '' not found.''), DONE_EVENT, DONE_EVENT], w)
      | Inr (Some a) \<Rightarrow>
          (case run_of E a user_prompt image_path w of
             (Some e, fa, st) \<Rightarrow> (events st @ [fatal_event e, DONE_EVENT], rworld st)
           | (None, fa, st) \<Rightarrow>
               (case db_commit E (rworld st) (ag_id a) user_prompt
                       (py_join [nl] (thought_log st)) (answer_of fa) of
                  Inl e \<Rightarrow> (events st @ [fatal_event e, DONE_EVENT], rworld st)
                | Inr new_id \<Rightarrow>
                    (events st @
                       [(Final, json_dumps E
                                  (final_payload new_id (ag_id a) (answer_of fa) (last_artifact_path st))),
                        DONE_EVENT],
                     (rworld st)\<lparr>task_logs := task_logs (rworld st) @
                        [new_log new_id a user_prompt st fa]\<rparr>))))"

definition stream_agent_task :: "env \<Rightarrow> int \<Rightarrow> string \<Rightarrow> string \<Rightarrow> world \<Rightarrow> string list \<times> world" where
  "stream_agent_task E agent_id user_prompt image_path w =
     (case agent_events E agent_id user_prompt image_path w of (evs, w') \<Rightarrow> (map sse evs, w'))"

subsection \<open>The synchronous wrapper\<close>

text \<open>
  \<^verbatim>\<open>
  event, data = "", ""
  for line in frame.split("\n"):
      if line.startswith("event:"): event = line[6:].strip()
      elif line.startswith("data:"): data = line[5:].strip().replace("\\n", "\n")
  \<close>
\<close>

definition parse_frame :: "string \<Rightarrow> string \<times> string" where
  "parse_frame frame =
     foldl (\<lambda>(ev, d) line.
              if startswith line ''event:'' then (strip (drop 6 line), d)
              else if startswith line ''data:'' then (ev, unescape_newlines (strip (drop 5 line)))
              else (ev, d))
       ([], []) (split_on nl frame)"

text \<open>\<open>d[k] = v\<close> on an insertion-ordered dictionary, and \<open>d.update(other)\<close>.\<close>

fun dict_set :: "('k \<times> 'v) list \<Rightarrow> 'k \<Rightarrow> 'v \<Rightarrow> ('k \<times> 'v) list" where
  "dict_set [] k v = [(k, v)]"
| "dict_set ((k', v') # d) k v = (if k' = k then (k, v) # d else (k', v') # dict_set d k v)"

definition dict_update :: "('k \<times> 'v) list \<Rightarrow> ('k \<times> 'v) list \<Rightarrow> ('k \<times> 'v) list" where
  "dict_update d other = foldl (\<lambda>acc (k, v). dict_set acc k v) d other"

text \<open>
  The body of \<open>async for frame in stream_agent_task(...)\<close> in \<open>_collect\<close>, over the frames
  in order. \<open>result.update(payload)\<close> raises for a payload that is not a mapping.
\<close>

fun collect_frames ::
  "env \<Rightarrow> string list \<Rightarrow> (string \<times> json) list \<Rightarrow> string list \<Rightarrow> exc + (string \<times> json) list \<times> string list" where
  "collect_frames E [] result thought_lines = Inr (result, thought_lines)"
| "collect_frames E (frame # frames) result thought_lines =
     (case parse_frame frame of
        (ev, d) \<Rightarrow>
          if ev = ''thought'' \<or> ev = ''action'' \<or> ev = ''observation''
          then collect_frames E frames result (thought_lines @ [d])
          else if ev = ''final'' then
            (case json_loads E d of
               None \<Rightarrow> collect_frames E frames (dict_set result ''final_output'' (JStr d)) thought_lines
             | Some (JDict payload) \<Rightarrow> collect_frames E frames (dict_update result payload) thought_lines
             | Some v \<Rightarrow> Inl (PyExc ''TypeError'' (sq # type_name v @ sq # '' object is not iterable'')))
          else collect_frames E frames result thought_lines)"

definition run_agent_task ::
  "env \<Rightarrow> int \<Rightarrow> string \<Rightarrow> string \<Rightarrow> world \<Rightarrow> (exc + (string \<times> json) list) \<times> world" where
  "run_agent_task E agent_id user_prompt image_path w =
     (case stream_agent_task E agent_id user_prompt image_path w of
        (frames, w') \<Rightarrow>
          (case collect_frames E frames
                  [(''task_log_id'', JInt (- 1)),
                   (''agent_id'', JInt agent_id),
                   (''final_output'', JStr []),
                   (''artifact_path'', JNull),
                   (''thought_process'', JStr [])] [] of
             Inl e \<Rightarrow> (Inl e, w')
           | Inr (result, thought_lines) \<Rightarrow>
               (Inr (dict_set result ''thought_process'' (JStr (py_join [nl] thought_lines))), w')))"

section \<open>Workflow executor: merging the outputs of a node's parents\<close>

text \<open>
  \<^verbatim>\<open>
  def _merge_inputs(inputs):
      if not inputs: return None
      if len(inputs) == 1: return inputs[0]
      if all(isinstance(i, str) for i in inputs): return "\n\n".join(inputs)
      return inputs
  \<close>
\<close>

definition merge_inputs :: "json list \<Rightarrow> json" where
  "merge_inputs inputs =
     (if inputs = [] then JNull
      else if length inputs = 1 then hd inputs
      else if list_all is_str inputs then JStr (py_join [nl, nl] (map str_of inputs))
      else JList inputs)"

subsection \<open>Node behaviours\<close>

text \<open>\<open>REPORTS_DIR = Path("reports").resolve()\<close> of the workflow executor: an absolute path.\<close>

definition WF_REPORTS_DIR :: "env \<Rightarrow> ppath" where
  "WF_REPORTS_DIR E = \<lparr>p_anchor = True, p_parts = resolve_parts (cwd E) (Path ''reports'')\<rparr>"

text \<open>\<open>str(data) if data is not None else ""\<close>.\<close>

definition str_or_empty :: "env \<Rightarrow> json \<Rightarrow> string" where
  "str_or_empty E v = (if v = JNull then [] else py_str E v)"

text \<open>\<open>int(x)\<close> for a value that is not \<open>None\<close>.\<close>

definition int_of_json :: "env \<Rightarrow> json \<Rightarrow> exc + int" where
  "int_of_json E v =
     (case v of
        JInt n \<Rightarrow> Inr n
      | JBool b \<Rightarrow> Inr (if b then 1 else 0)
      | JStr s \<Rightarrow> (case py_int E s of
                     None \<Rightarrow> Inl (PyExc ''ValueError'' (''invalid literal for int() with base 10: '' @ s))
                   | Some n \<Rightarrow> Inr n)
      | _ \<Rightarrow> Inl (PyExc ''TypeError'' (''int() argument must be a string or a real number, not '' @ type_name v)))"

text \<open>
  The loop of the agent node over the frames of the stream: the last final frame with a
  payload decides the output.
\<close>

fun agent_node_output :: "env \<Rightarrow> string list \<Rightarrow> json \<Rightarrow> exc + json" where
  "agent_node_output E [] final_out = Inr final_out"
| "agent_node_output E (frame # frames) final_out =
     (case parse_frame frame of
        (evt, payload) \<Rightarrow>
          if evt = ''final'' \<and> payload \<noteq> [] then
            (case json_loads E payload of
               None \<Rightarrow> agent_node_output E frames (JStr payload)
             | Some (JDict d) \<Rightarrow> agent_node_output E frames (dict_get_default d ''final_output'' (JStr []))
             | Some v \<Rightarrow> Inl (attribute_error v ''get''))
          else agent_node_output E frames final_out)"

definition run_email_sender :: "env \<Rightarrow> (string \<times> json) list \<Rightarrow> json \<Rightarrow> world \<Rightarrow> (exc + json) \<times> world" where
  "run_email_sender E config data w =
     (let to0 = py_or (dict_get config ''to'') (JList []);
          subject = py_or (dict_get config ''subject'') (JStr ''AgentFlow Local Report'');
          body = JStr (str_or_empty E data);
          to = (if is_str to0 then JList [to0] else to0)
      in if truthy to then
           (case send_email E to subject body w of
              (Some e, w') \<Rightarrow> (Inl e, w')
            | (None, w') \<Rightarrow> (Inr (JDict [(''status'', JStr ''sent''), (''to'', to)]), w'))
         else (Inr (JDict [(''status'', JStr ''sent''), (''to'', to)]), w))"

text \<open>
  \<^verbatim>\<open>
  filename = config.get("filename", "workflow_report.pdf")
  safe_name = Path(filename).name
  REPORTS_DIR.mkdir(parents=True, exist_ok=True)
  output_path = REPORTS_DIR / safe_name
  pdf_tool.generate_report(title=title, content=content, filename=str(output_path))
  return {"pdf_path": str(output_path)}
  \<close>
\<close>

definition wf_output_path :: "env \<Rightarrow> string \<Rightarrow> ppath" where
  "wf_output_path E filename = path_div (WF_REPORTS_DIR E) (path_name (Path filename))"

definition run_pdf_report :: "env \<Rightarrow> (string \<times> json) list \<Rightarrow> json \<Rightarrow> world \<Rightarrow> (exc + json) \<times> world" where
  "run_pdf_report E config data w =
     (let title = dict_get_default config ''title'' (JStr ''AI Research Report'');
          body = JStr (str_or_empty E data);
          filename = dict_get_default config ''filename'' (JStr ''workflow_report.pdf'')
      in case filename of
           JStr f \<Rightarrow>
             (case fs_mkdir E w (path_str (WF_REPORTS_DIR E)) of
                Some e \<Rightarrow> (Inl e, w)
              | None \<Rightarrow>
                  (case generate_report E title body (path_str (wf_output_path E f)) w of
                     (Inl e, w') \<Rightarrow> (Inl e, w')
                   | (Inr p, w') \<Rightarrow> (Inr (JDict [(''pdf_path'', JStr (path_str (wf_output_path E f)))]), w')))
         | _ \<Rightarrow>
             (Inl (PyExc ''TypeError''
                    (''expected str, bytes or os.PathLike object, not '' @ type_name filename)), w))"

definition run_agent_node :: "env \<Rightarrow> (string \<times> json) list \<Rightarrow> json \<Rightarrow> world \<Rightarrow> (exc + json) \<times> world" where
  "run_agent_node E config data w =
     (let agent_id = dict_get config ''agent_id'' in
      if agent_id = JNull
      then (Inl (PyExc ''ValueError'' (''Agent node requires an '' @ sq # ''agent_id'' @ sq # '' in config.'')), w)
      else
        (let prompt_prefix = py_or (dict_get config ''prompt_prefix'') (JStr []);
             base_prompt = str_or_empty E data;
             full_prompt = (if truthy prompt_prefix
                            then py_str E prompt_prefix @ [nl, nl] @ base_prompt else base_prompt)
         in case int_of_json E agent_id of
              Inl e \<Rightarrow> (Inl e, w)
            | Inr aid \<Rightarrow>
                (case stream_agent_task E aid full_prompt [] w of
                   (frames, w') \<Rightarrow> (agent_node_output E frames (JStr []), w'))))"

text \<open>
  \<open>_execute_node\<close>: the chain of \<open>if node_type == ...\<close>. A branch whose key matches no
  behaviour falls through to the following tests and ends in the pass-through. The
  configuration is read with \<open>config.get\<close>, which raises when it is not a dictionary.
\<close>

definition execute_node :: "env \<Rightarrow> json \<Rightarrow> json \<Rightarrow> json \<Rightarrow> json \<Rightarrow> world \<Rightarrow> (exc + json) \<times> world" where
  "execute_node E node_type key config data w =
     (if node_type = JStr ''source'' \<and> key = JStr ''url_input'' then
        (case config of
           JDict c \<Rightarrow> (Inr (py_or (dict_get c ''url'') data), w)
         | _ \<Rightarrow> (Inl (attribute_error config ''get''), w))
      else if node_type = JStr ''source'' \<and> key = JStr ''schedule'' then
        (Inr (JDict [(''schedule'', config)]), w)
      else if node_type = JStr ''tool'' \<and> key = JStr ''web_scraper'' then
        (case config of
           JDict c \<Rightarrow>
             (let url = py_or (dict_get c ''url'') data in
              if \<not> is_str url
              then (Inl (PyExc ''ValueError'' ''Web scraper node requires a URL string input.''), w)
              else (map_sum id JStr (http_scrape E w url), w))
         | _ \<Rightarrow> (Inl (attribute_error config ''get''), w))
      else if node_type = JStr ''tool'' \<and> key = JStr ''email_sender'' then
        (case config of
           JDict c \<Rightarrow> run_email_sender E c data w
         | _ \<Rightarrow> (Inl (attribute_error config ''get''), w))
      else if node_type = JStr ''tool'' \<and> key = JStr ''pdf_report'' then
        (case config of
           JDict c \<Rightarrow> run_pdf_report E c data w
         | _ \<Rightarrow> (Inl (attribute_error config ''get''), w))
      else if node_type = JStr ''agent'' then
        (case config of
           JDict c \<Rightarrow> run_agent_node E c data w
         | _ \<Rightarrow> (Inl (attribute_error config ''get''), w))
      else (Inr data, w))"

subsection \<open>Scheduling\<close>

record node =
  n_id :: string
  n_type :: json
  n_key :: json
  n_config :: json

text \<open>A graph whose nodes are dictionaries with an \<open>id\<close> and whose edges have a \<open>source\<close>
  and a \<open>target\<close>; a missing \<open>type\<close>, \<open>key\<close> or \<open>config\<close> is \<open>None\<close>.\<close>

record graph =
  g_nodes :: "node list"
  g_edges :: "(string \<times> string) list"

text \<open>\<open>d.get(k, [])\<close> and \<open>d.setdefault(k, []).append(v)\<close> on a dictionary of lists.\<close>

definition get_list :: "('k \<times> 'v list) list \<Rightarrow> 'k \<Rightarrow> 'v list" where
  "get_list d k = (case map_of d k of None \<Rightarrow> [] | Some xs \<Rightarrow> xs)"

definition setdefault_append :: "('k \<times> 'v list) list \<Rightarrow> 'k \<Rightarrow> 'v \<Rightarrow> ('k \<times> 'v list) list" where
  "setdefault_append d k v = dict_set d k (get_list d k @ [v])"

definition nodes_dict :: "graph \<Rightarrow> (string \<times> node) list" where
  "nodes_dict g = foldl (\<lambda>d n. dict_set d (n_id n) n) [] (g_nodes g)"

definition empty_lists :: "graph \<Rightarrow> (string \<times> string list) list" where
  "empty_lists g = map (\<lambda>(nid, n). (nid, [])) (nodes_dict g)"

definition incoming :: "graph \<Rightarrow> (string \<times> string list) list" where
  "incoming g = foldl (\<lambda>d (s, t). setdefault_append d t s) (empty_lists g) (g_edges g)"

definition outgoing :: "graph \<Rightarrow> (string \<times> string list) list" where
  "outgoing g = foldl (\<lambda>d (s, t). setdefault_append d s t) (empty_lists g) (g_edges g)"

text \<open>
  \<^verbatim>\<open>
  config = node.get("config") or {}
  if isinstance(config, str):
      try: config = json.loads(config)
      except json.JSONDecodeError: config = {}
  \<close>
\<close>

definition node_config :: "env \<Rightarrow> node \<Rightarrow> json" where
  "node_config E n =
     (case py_or (n_config n) (JDict []) of
        JStr s \<Rightarrow> (case json_loads E s of None \<Rightarrow> JDict [] | Some v \<Rightarrow> v)
      | c \<Rightarrow> c)"

text \<open>The variables of \<open>execute_graph\<close> that change in its loop, the world, and the list of
  the nodes on which \<open>_execute_node\<close> has been called, in order.\<close>

record exec_state =
  ready :: "string list"
  results :: "(string \<times> json) list"
  completed :: "string set"
  executed :: "string list"
  xworld :: world

text \<open>\<open>[results[p] for p in incoming.get(nid, []) if p in results]\<close>.\<close>

definition input_payloads :: "graph \<Rightarrow> exec_state \<Rightarrow> string \<Rightarrow> json list" where
  "input_payloads g st nid = List.map_filter (map_of (results st)) (get_list (incoming g) nid)"

text \<open>The children of \<open>nid\<close> that are appended to the ready queue once \<open>done\<close> is the set of
  completed nodes.\<close>

definition ready_children :: "graph \<Rightarrow> string set \<Rightarrow> string \<Rightarrow> string list" where
  "ready_children g done nid =
     filter (\<lambda>child. list_all (\<lambda>parent. parent \<in> done) (get_list (incoming g) child))
       (get_list (outgoing g) nid)"

text \<open>
  \<^verbatim>\<open>
  while ready:
      nid = ready.pop(0)
      node = nodes[nid]
      ...
      result = await self._execute_node(...)
      results[nid] = result
      completed.add(nid)
      for child in outgoing.get(nid, []):
          if all(parent in completed for parent in incoming.get(child, [])):
              ready.append(child)
  \<close>
  The loop has no bound of its own, so it is a partial function: \<open>None\<close> is a run that
  never leaves the loop. A result carries the exception that aborted the run, if any.
\<close>

partial_function (option) run_ready :: "env \<Rightarrow> graph \<Rightarrow> exec_state \<Rightarrow> (exc option \<times> exec_state) option" where
  "run_ready E g st =
     (case ready st of
        [] \<Rightarrow> Some (None, st)
      | nid # rest \<Rightarrow>
          (case map_of (nodes_dict g) nid of
             None \<Rightarrow> Some (Some (PyExc ''KeyError'' nid), st\<lparr>ready := rest\<rparr>)
           | Some n \<Rightarrow>
               (case execute_node E (n_type n) (n_key n) (node_config E n)
                       (merge_inputs (input_payloads g st nid)) (xworld st) of
                  (Inl e, w') \<Rightarrow>
                    Some (Some e, st\<lparr>ready := rest, executed := executed st @ [nid], xworld := w'\<rparr>)
                | (Inr result, w') \<Rightarrow>
                    run_ready E g
                      (st\<lparr>ready := rest @ ready_children g (insert nid (completed st)) nid,
                          results := dict_set (results st) nid result,
                          completed := insert nid (completed st),
                          executed := executed st @ [nid],
                          xworld := w'\<rparr>))))"

text \<open>The nodes without incoming edges, in the order of the dictionary's keys.\<close>

definition initial_ready :: "graph \<Rightarrow> string list" where
  "initial_ready g = map fst (filter (\<lambda>(nid, inc). inc = []) (incoming g))"

definition execute_graph :: "env \<Rightarrow> graph \<Rightarrow> world \<Rightarrow> (exc option \<times> exec_state) option" where
  "execute_graph E g w =
     run_ready E g \<lparr>ready = initial_ready g, results = [], completed = {}, executed = [], xworld = w\<rparr>"

section \<open>A concrete environment\<close>

text \<open>
  \<open>json.dumps\<close> with its default separators, for strings of ASCII characters: the quote
  and the backslash are escaped, a line feed becomes backslash n, and so on for the other
  control characters.
\<close>

definition hex_char :: "nat \<Rightarrow> char" where
  "hex_char d = ''0123456789abcdef'' ! (d mod 16)"

definition json_escape_char :: "char \<Rightarrow> string" where
  "json_escape_char c =
     (if c = CHR 0x22 then [bsl, CHR 0x22]
      else if c = bsl then [bsl, bsl]
      else if c = nl then [bsl, CHR ''n'']
      else if c = CHR 0x0D then [bsl, CHR ''r'']
      else if c = CHR 0x09 then [bsl, CHR ''t'']
      else if c = CHR 0x08 then [bsl, CHR ''b'']
      else if c = CHR 0x0C then [bsl, CHR ''f'']
      else if (of_char c :: nat) < 32
        then [bsl, CHR ''u'', CHR ''0'', CHR ''0'', hex_char (of_char c div 16), hex_char (of_char c)]
      else [c])"

definition json_quote :: "string \<Rightarrow> string" where
  "json_quote s = CHR 0x22 # concat (map json_escape_char s) @ [CHR 0x22]"

fun py_json_dumps :: "json \<Rightarrow> string" where
  "py_json_dumps JNull = ''null''"
| "py_json_dumps (JBool b) = (if b then ''true'' else ''false'')"
| "py_json_dumps (JInt n) = str_int n"
| "py_json_dumps (JStr s) = json_quote s"
| "py_json_dumps (JList xs) = ''['' @ py_join '', '' (map py_json_dumps xs) @ '']''"
| "py_json_dumps (JDict kvs) =
     ''{'' @ py_join '', '' (map (\<lambda>(k, v). json_quote k @ '': '' @ py_json_dumps v) kvs) @ ''}''"

text \<open>
  A decoder that knows the listed values: it returns the value whose \<open>json.dumps\<close> text
  is the input, and rejects every other text. It agrees with \<open>json.loads\<close> on the texts
  of the listed values and on every text that is not JSON.
\<close>

definition loads_among :: "json list \<Rightarrow> string \<Rightarrow> json option" where
  "loads_among vs s = find (\<lambda>v. py_json_dumps v = s) vs"

text \<open>
  An environment in which every collaborator succeeds: the working directory is
  \<open>/srv/app\<close>, the file system and the PDF library accept everything, the caller runs
  inside an event loop (as \<open>stream_agent_task\<close> does), the database holds one agent with
  id 1, and the new row of the task log gets the next free id. The model, and the values
  that the decoder knows, are parameters.
\<close>

definition demo_agent :: agent where
  "demo_agent = \<lparr>ag_id = 1, ag_name = ''Ada'', ag_role = ''analyst'', ag_model_name = [],
                  ag_backstory = [], ag_tools = []\<rparr>"

definition demo_env :: "(msg list \<Rightarrow> exc + chat_message) \<Rightarrow> json list \<Rightarrow> env" where
  "demo_env model known =
     \<lparr>cwd = [''srv'', ''app''],
      json_loads = loads_among known,
      json_dumps = py_json_dumps,
      py_repr = py_json_dumps,
      py_int = (\<lambda>s. None),
      fs_is_file = (\<lambda>w p. True),
      fs_open = (\<lambda>w p. None),
      fs_mkdir = (\<lambda>w p. None),
      fpdf_render = (\<lambda>w t c. None),
      fpdf_output = (\<lambda>w p. None),
      vision_chat = (\<lambda>w m q p. Inr ''a chart''),
      http_scrape = (\<lambda>w u. Inr ''page text''),
      event_loop_running = True,
      smtp_send = (\<lambda>w t s b. None),
      chat = (\<lambda>w m ms ts. model ms),
      db_get_agent = (\<lambda>w i. Inr (if i = 1 then Some demo_agent else None)),
      db_commit = (\<lambda>w a q t f. Inr (int (length (task_logs w)) + 1)),
      system_prompt = (\<lambda>a. ''You are an AI agent.'')\<rparr>"

text \<open>A model that answers with neither text nor tool calls.\<close>

definition silent :: "msg list \<Rightarrow> exc + chat_message" where
  "silent ms = Inr \<lparr>content = [], tool_calls = []\<rparr>"

text \<open>A model that answers with the given text and no tool call.\<close>

definition answers :: "string \<Rightarrow> msg list \<Rightarrow> exc + chat_message" where
  "answers txt ms = Inr \<lparr>content = txt, tool_calls = []\<rparr>"

definition world0 :: world where
  "world0 = \<lparr>mail_calls = [], files_written = [], files_opened = [], task_logs = [], model_queries = 0\<rparr>"




text \<open>A final answer of two lines.\<close>

definition two_lines :: string where
  "two_lines = ''a'' @ [nl] @ ''b''"

text \<open>A graph with a source, an output fed by it, and two nodes that are each other's only
  parent.\<close>

definition demo_graph :: graph where
  "demo_graph =
     \<lparr>g_nodes =
        [\<lparr>n_id = ''n1'', n_type = JStr ''source'', n_key = JStr ''url_input'',
          n_config = JDict [(''url'', JStr ''http://x'')]\<rparr>,
         \<lparr>n_id = ''n2'', n_type = JStr ''output'', n_key = JNull, n_config = JNull\<rparr>,
         \<lparr>n_id = ''a'', n_type = JStr ''output'', n_key = JNull, n_config = JNull\<rparr>,
         \<lparr>n_id = ''b'', n_type = JStr ''output'', n_key = JNull, n_config = JNull\<rparr>],
      g_edges = [(''n1'', ''n2''), (''a'', ''b''), (''b'', ''a'')]\<rparr>"

section \<open>Vocabulary of the properties\<close>

text \<open>An error observation: the text begins with \<open>ERROR\<close> and there is no artifact.\<close>

definition is_error_result :: "tool_result \<Rightarrow> bool" where
  "is_error_result r = (startswith (fst r) ''ERROR'' \<and> snd r = None)"



text \<open>A progress event: a thought, an action or an observation.\<close>

definition is_progress :: "event \<Rightarrow> bool" where
  "is_progress ev = (fst ev = Thought \<or> fst ev = Action \<or> fst ev = Observation)"

fun msg_role :: "msg \<Rightarrow> string" where
  "msg_role (Msg_system s) = ''system''"
| "msg_role (Msg_user s) = ''user''"
| "msg_role (Msg_assistant s) = ''assistant''"
| "msg_role (Msg_assistant_tool_call i n a) = ''assistant''"
| "msg_role (Msg_tool i n c) = ''tool''"

fun result_state :: "step_result \<Rightarrow> run_state" where
  "result_state (Continue st) = st"
| "result_state (Break fa st) = st"
| "result_state (Raise e st) = st"


text \<open>A run completes when the agent exists, no exception leaves the loop, and the task
  log row is committed.\<close>

definition completes :: "env \<Rightarrow> int \<Rightarrow> string \<Rightarrow> string \<Rightarrow> world \<Rightarrow> bool" where
  "completes E agent_id user_prompt image_path w =
     (case db_get_agent E w agent_id of
        Inr (Some a) \<Rightarrow>
          (case run_of E a user_prompt image_path w of
             (None, fa, st) \<Rightarrow>
               (case db_commit E (rworld st) (ag_id a) user_prompt
                       (py_join [nl] (thought_log st)) (answer_of fa) of
                  Inr new_id \<Rightarrow> True
                | Inl e \<Rightarrow> False)
           | (Some e, fa, st) \<Rightarrow> False)
      | _ \<Rightarrow> False)"

text \<open>Two worlds with the same task log rows and the same number of model queries.\<close>

definition same_logs :: "world \<Rightarrow> world \<Rightarrow> bool" where
  "same_logs w w' = (task_logs w' = task_logs w \<and> model_queries w' = model_queries w)"

text \<open>A later state of a run extends an earlier one: messages and events were only
  appended, the new events are progress events, and the task log rows are the same.\<close>

definition extends :: "run_state \<Rightarrow> run_state \<Rightarrow> bool" where
  "extends st st' =
     (\<exists>ms evs. messages st' = messages st @ ms \<and> events st' = events st @ evs \<and> list_all is_progress evs
        \<and> task_logs (rworld st') = task_logs (rworld st))"

text \<open>
  The nodes that can ever run: those all of whose parents can run (in particular the
  nodes without parents). This is the accessible part of the edge relation. Among them, a
  child is below each of its parents.
\<close>

definition runnable :: "graph \<Rightarrow> string set" where
  "runnable g = Wellfounded.acc (set (g_edges g))"

definition child_order :: "graph \<Rightarrow> (string \<times> string) set" where
  "child_order g = {(c, p). (p, c) \<in> set (g_edges g) \<and> c \<in> runnable g}"

text \<open>A node that the run has not touched: not queued, not completed, never executed, and
  no key of the results.\<close>

definition untouched :: "string \<Rightarrow> exec_state \<Rightarrow> bool" where
  "untouched a st =
     (a \<notin> set (ready st) \<and> a \<notin> completed st \<and> a \<notin> set (executed st) \<and> a \<notin> set (map fst (results st)))"

text \<open>\<open>p\<close> is the only parent of \<open>c\<close>: the sources of the edges into \<open>c\<close> are exactly \<open>p\<close>.\<close>

definition only_parent :: "graph \<Rightarrow> string \<Rightarrow> string \<Rightarrow> bool" where
  "only_parent g p c = ({s. (s, c) \<in> set (g_edges g)} = {p})"

section \<open>Properties\<close>

subsection \<open>Input merge\<close>

lemma py_join_two: "py_join sep [a, b] = a @ sep @ b"
  by simp

text \<open>
  C5. The merge of the parents' outputs is: \<open>None\<close> for no input; the input itself for
  exactly one input; for two or more inputs that are all strings, the strings in their
  input order with a blank line (two newline characters) between neighbours; and for two
  or more inputs that are not all strings, the list of inputs unchanged.
\<close>

theorem merge_inputs_spec:
  "merge_inputs [] = JNull
   \<and> merge_inputs [x] = x
   \<and> (2 \<le> length xs \<and> list_all is_str xs \<longrightarrow>
        merge_inputs xs = JStr (py_join [nl, nl] (map str_of xs)))
   \<and> (2 \<le> length xs \<and> \<not> list_all is_str xs \<longrightarrow> merge_inputs xs = JList xs)
   \<and> py_join [nl, nl] (a # b # ys) = a @ [nl, nl] @ py_join [nl, nl] (b # ys)"
  by (auto simp: merge_inputs_def)

theorem merge_inputs_spec_witness:
  "merge_inputs [JStr ''a'', JStr ''b''] = JStr (''a'' @ [nl, nl] @ ''b'')
   \<and> merge_inputs [JDict [(''x'', JInt 1)], JStr ''b''] = JList [JDict [(''x'', JInt 1)], JStr ''b'']"
  using merge_inputs_spec [of "JNull" "[JStr ''a'', JStr ''b'']" "[]" "[]" "[]"]
        merge_inputs_spec [of "JNull" "[JDict [(''x'', JInt 1)], JStr ''b'']" "[]" "[]" "[]"]
  by simp

subsection \<open>The tool invoker\<close>


lemma execute_tool_str_total: "\<exists>r w'. execute_tool E (JStr tn) a m w = (Inr r, w')"
  by (auto simp: execute_tool_def Let_def split: option.splits prod.splits sum.splits)




lemma py_or_falsy: "\<not> truthy (py_or a b) \<longleftrightarrow> \<not> truthy a \<and> \<not> truthy b"
  by (simp add: py_or_def)



lemma run_send_email_missing:
  "\<not> truthy (dict_get d ''to'') \<Longrightarrow>
   run_send_email E (JDict d) w =
     (Inr (''ERROR: '' @ sq # ''to'' @ sq # '' (recipient list) is required.'', None), w)"
  by (simp add: run_send_email_def py_or_def)





subsection \<open>The mail node and the mail tool\<close>

lemma run_email_sender_no_recipient:
  "\<not> truthy (dict_get c ''to'') \<Longrightarrow>
   run_email_sender E c data w = (Inr (JDict [(''status'', JStr ''sent''), (''to'', JList [])]), w)"
  by (simp add: run_email_sender_def py_or_def)

text \<open>
  C10. An \<open>email_sender\<close> tool node whose configuration has no recipients (the key \<open>to\<close> is
  absent, or its value is empty) returns the record with status \<open>sent\<close> and the empty
  recipient list, raises nothing, and leaves the world as it was: the mail capability is
  not invoked. The tool invoker of the reasoning loop, for arguments without
  recipients, returns the error observation instead.
\<close>

theorem email_sender_without_recipients:
  "\<not> truthy (dict_get c ''to'') \<longrightarrow>
     execute_node E (JStr ''tool'') (JStr ''email_sender'') (JDict c) data w
       = (Inr (JDict [(''status'', JStr ''sent''), (''to'', JList [])]), w)
     \<and> mail_calls (snd (execute_node E (JStr ''tool'') (JStr ''email_sender'') (JDict c) data w)) = mail_calls w
     \<and> (decode_arguments E a = Some (JDict c) \<longrightarrow>
          execute_tool E (JStr ''send_email'') a m w
            = (Inr (''ERROR: '' @ sq # ''to'' @ sq # '' (recipient list) is required.'', None), w)
          \<and> is_error_result (''ERROR: '' @ sq # ''to'' @ sq # '' (recipient list) is required.'', None))"
  by (simp add: execute_node_def run_email_sender_no_recipient execute_tool_def resolve_alias_def
        TOOL_ALIASES_def tool_branches_def run_send_email_missing is_error_result_def startswith_def)

theorem email_sender_without_recipients_witness:
  "execute_node (demo_env silent [JDict []]) (JStr ''tool'') (JStr ''email_sender'')
      (JDict [(''subject'', JStr ''weekly'')]) (JStr ''body text'') world0
     = (Inr (JDict [(''status'', JStr ''sent''), (''to'', JList [])]), world0)
   \<and> execute_node (demo_env silent [JDict []]) (JStr ''tool'') (JStr ''email_sender'')
      (JDict [(''to'', JList [])]) (JStr ''body text'') world0
     = (Inr (JDict [(''status'', JStr ''sent''), (''to'', JList [])]), world0)
   \<and> execute_tool (demo_env silent [JDict []]) (JStr ''send_email'') ''{}'' ''m'' world0
     = (Inr (''ERROR: '' @ sq # ''to'' @ sq # '' (recipient list) is required.'', None), world0)"
proof -
  have 1: "\<not> truthy (dict_get [(''subject'', JStr ''weekly'')] ''to'')"
    by (simp add: dict_get_def)
  have 2: "\<not> truthy (dict_get [(''to'', JList [])] ''to'')"
    by (simp add: dict_get_def)
  have 3: "\<not> truthy (dict_get [] ''to'')"
    by (simp add: dict_get_def)
  have 4: "decode_arguments (demo_env silent [JDict []]) ''{}'' = Some (JDict [])"
    by (simp add: decode_arguments_def demo_env_def loads_among_def)
  show ?thesis
    using email_sender_without_recipients [of "[(''subject'', JStr ''weekly'')]" "demo_env silent [JDict []]"
            "JStr ''body text''" world0 "[]" "[]"]
          email_sender_without_recipients [of "[(''to'', JList [])]" "demo_env silent [JDict []]"
            "JStr ''body text''" world0 "[]" "[]"]
          email_sender_without_recipients [of "[]" "demo_env silent [JDict []]"
            "JNull" world0 "''{}''" "''m''"]
          1 2 3 4
    by simp
qed

subsection \<open>Paths of generated reports\<close>

text \<open>
  C3. The tool invoker reduces the file name to its base name only when the name is
  absolute. For the relative name \<open>../evil.pdf\<close> it passes \<open>reports/../evil.pdf\<close> to the
  generator, the file is written to \<open>/srv/app/evil.pdf\<close>, and that path is not inside
  \<open>/srv/app/reports\<close>. The workflow node, on the same name, writes to
  \<open>/srv/app/reports/evil.pdf\<close>.
\<close>

theorem pdf_filename_escapes_reports_dir:
  "pdf_filename ''../evil.pdf'' = ''reports/../evil.pdf''
   \<and> execute_tool (demo_env silent [JDict [(''filename'', JStr ''../evil.pdf'')]]) (JStr ''generate_pdf_report'')
        (py_json_dumps (JDict [(''filename'', JStr ''../evil.pdf'')])) ''m'' world0
       = (Inr (''SUCCESS: PDF saved to '' @ [sq] @ ''/srv/app/evil.pdf'' @ [sq] @ ''.'', Some ''/srv/app/evil.pdf''),
          world0\<lparr>files_written := [''/srv/app/evil.pdf'']\<rparr>)
   \<and> \<not> lies_inside (abs_parts [''srv'', ''app''] (path_str REPORTS_DIR))
                     (abs_parts [''srv'', ''app''] (pdf_filename ''../evil.pdf''))
   \<and> path_str (wf_output_path (demo_env silent []) ''../evil.pdf'') = ''/srv/app/reports/evil.pdf''"
  by code_simp

subsection \<open>The uploads directory\<close>

text \<open>
  C4. The image tool compares the resolved path with the uploads directory as strings.
  The path \<open>uploads_old/x.png\<close> resolves to \<open>/srv/app/uploads_old/x.png\<close>, which begins with
  \<open>/srv/app/uploads\<close> as a string but is not inside that directory; the tool does not
  reject it, and opens the file.
\<close>

theorem analyze_image_accepts_sibling_directory:
  "analyze_image (demo_env silent []) (JStr ''uploads_old/x.png'') JNull ''m'' world0
     = (Inr ''a chart'', world0\<lparr>files_opened := [''/srv/app/uploads_old/x.png'']\<rparr>)
   \<and> execute_tool (demo_env silent [JDict [(''image_path'', JStr ''uploads_old/x.png'')]]) (JStr ''analyze_image'')
        (py_json_dumps (JDict [(''image_path'', JStr ''uploads_old/x.png'')])) ''m'' world0
       = (Inr (''Image analysis result:'' @ [nl] @ ''a chart'', None),
          world0\<lparr>files_opened := [''/srv/app/uploads_old/x.png'']\<rparr>)
   \<and> UPLOADS_DIR (demo_env silent []) = [''srv'', ''app'', ''uploads'']
   \<and> \<not> lies_inside (UPLOADS_DIR (demo_env silent []))
                     (resolve_parts [''srv'', ''app''] (Path ''uploads_old/x.png''))"
  by code_simp

subsection \<open>The reasoning loop\<close>

lemma same_logs_refl [simp]: "same_logs w w"
  by (simp add: same_logs_def)

lemma generate_report_logs: "generate_report E t c f w = (r, w') \<Longrightarrow> same_logs w w'"
  by (auto simp: generate_report_def same_logs_def Let_def split: option.splits)

lemma analyze_image_logs: "analyze_image E i p m w = (r, w') \<Longrightarrow> same_logs w w'"
  by (auto simp: analyze_image_def same_logs_def Let_def split: option.splits json.splits if_splits)

lemma send_email_logs: "send_email E t s b w = (r, w') \<Longrightarrow> same_logs w w'"
  by (auto simp: send_email_def same_logs_def)

lemma run_generate_pdf_report_logs: "run_generate_pdf_report E args w = (r, w') \<Longrightarrow> same_logs w w'"
  by (auto simp: run_generate_pdf_report_def Let_def dest: generate_report_logs
           split: option.splits json.splits prod.splits sum.splits)

lemma run_analyze_image_logs: "run_analyze_image E args m w = (r, w') \<Longrightarrow> same_logs w w'"
  by (auto simp: run_analyze_image_def Let_def dest: analyze_image_logs
           split: json.splits prod.splits sum.splits if_splits)

lemma run_web_scraper_tool_logs: "run_web_scraper_tool E args w = (r, w') \<Longrightarrow> same_logs w w'"
  by (auto simp: run_web_scraper_tool_def Let_def split: json.splits sum.splits if_splits)

lemma run_send_email_logs: "run_send_email E args w = (r, w') \<Longrightarrow> same_logs w w'"
  by (auto simp: run_send_email_def Let_def dest: send_email_logs
           split: json.splits prod.splits sum.splits option.splits if_splits)

lemma tool_branches_logs: "tool_branches E n args m w = (r, w') \<Longrightarrow> same_logs w w'"
  by (auto simp: tool_branches_def
           dest: run_generate_pdf_report_logs run_analyze_image_logs run_web_scraper_tool_logs run_send_email_logs
           split: if_splits prod.splits)

lemma execute_tool_logs: "execute_tool E tn a m w = (r, w') \<Longrightarrow> same_logs w w'"
  by (auto simp: execute_tool_def Let_def dest: tool_branches_logs
           split: option.splits json.splits prod.splits sum.splits)

lemma same_logs_trans: "same_logs a b \<Longrightarrow> same_logs b c \<Longrightarrow> same_logs a c"
  by (simp add: same_logs_def)

lemma drain_tool_calls_shape:
  "\<exists>st' ms evs. drain_tool_calls E mn step tcs st = (None, st')
      \<and> messages st' = messages st @ ms
      \<and> map msg_role ms = concat (replicate (length tcs) [''assistant'', ''tool''])
      \<and> events st' = events st @ evs
      \<and> map fst evs = concat (replicate (length tcs) [Action, Observation])
      \<and> same_logs (rworld st) (rworld st')"
proof (induction tcs arbitrary: st)
  case Nil
  then show ?case by simp
next
  case (Cons tc tcs)
  define t_args where "t_args = (if tc_arguments tc = [] then ''{}'' else tc_arguments tc)"
  define act where "act = (Action, ''[ACTION] Executing tool: '' @ tc_name tc @ nl # ''Args: '' @ t_args)"
  obtain r w' where ex: "execute_tool E (JStr (tc_name tc)) t_args mn (rworld st) = (Inr r, w')"
    using execute_tool_str_total by blast
  obtain obs art where r: "r = (obs, art)" by (cases r)
  have w': "same_logs (rworld st) w'"
    using ex by (rule execute_tool_logs)
  obtain st2 where step: "drain_tool_calls E mn step (tc # tcs) st = drain_tool_calls E mn step tcs st2"
    and m2: "messages st2 = messages st @
               [Msg_assistant_tool_call (tc_id tc) (tc_name tc) t_args, Msg_tool (tc_id tc) (tc_name tc) obs]"
    and e2: "events st2 = events st @ [act, (Observation, ''[OBSERVATION] '' @ obs)]"
    and w2: "rworld st2 = w'"
    using ex r by (simp add: Let_def t_args_def act_def)
  from Cons.IH [of st2] obtain st' ms evs where
    ih: "drain_tool_calls E mn step tcs st2 = (None, st')" "messages st' = messages st2 @ ms"
        "map msg_role ms = concat (replicate (length tcs) [''assistant'', ''tool''])"
        "events st' = events st2 @ evs"
        "map fst evs = concat (replicate (length tcs) [Action, Observation])"
        "same_logs (rworld st2) (rworld st')"
    by blast
  show ?case
  proof (intro exI conjI)
    show "drain_tool_calls E mn step (tc # tcs) st = (None, st')"
      using step ih(1) by simp
    show "messages st' =
          messages st @ ([Msg_assistant_tool_call (tc_id tc) (tc_name tc) t_args, Msg_tool (tc_id tc) (tc_name tc) obs] @ ms)"
      using ih(2) m2 by simp
    show "map msg_role ([Msg_assistant_tool_call (tc_id tc) (tc_name tc) t_args, Msg_tool (tc_id tc) (tc_name tc) obs] @ ms)
          = concat (replicate (length (tc # tcs)) [''assistant'', ''tool''])"
      using ih(3) by simp
    show "events st' = events st @ ([act, (Observation, ''[OBSERVATION] '' @ obs)] @ evs)"
      using ih(4) e2 by simp
    show "map fst ([act, (Observation, ''[OBSERVATION] '' @ obs)] @ evs)
          = concat (replicate (length (tc # tcs)) [Action, Observation])"
      using ih(5) by (simp add: act_def)
    show "same_logs (rworld st) (rworld st')"
      using w' w2 ih(6) same_logs_trans by metis
  qed
qed

lemma inline_tool_call_shape:
  "\<exists>r st' ms evs. inline_tool_call E mn step tn ta st = (r, st')
      \<and> messages st' = messages st @ ms
      \<and> events st' = events st @ evs \<and> list_all is_progress evs
      \<and> same_logs (rworld st) (rworld st')"
proof -
  obtain r w' where ex: "execute_tool E tn (json_dumps E ta) mn (rworld st) = (r, w')"
    by (cases "execute_tool E tn (json_dumps E ta) mn (rworld st)")
  have w': "same_logs (rworld st) w'"
    using ex by (rule execute_tool_logs)
  show ?thesis
  proof (cases r)
    case (Inl e)
    then show ?thesis
      using ex w' by (simp add: inline_tool_call_def Let_def is_progress_def)
  next
    case (Inr p)
    then show ?thesis
      using ex w' by (cases p) (simp add: inline_tool_call_def Let_def is_progress_def)
  qed
qed

lemma extends_refl: "extends st st"
  by (simp add: extends_def)

lemma extends_trans: "extends a b \<Longrightarrow> extends b c \<Longrightarrow> extends a c"
  by (auto simp: extends_def)

lemma begin_step_extends:
  "extends st (begin_step mn step st)"
  "model_queries (rworld (begin_step mn step st)) = Suc (model_queries (rworld st))"
  by (simp_all add: begin_step_def extends_def is_progress_def)

lemma note_thought_extends:
  "extends st (note_thought step message st)"
  "rworld (note_thought step message st) = rworld st"
  by (simp_all add: note_thought_def extends_def is_progress_def)

lemma drain_extends:
  "\<exists>st'. drain_tool_calls E mn step tcs st = (None, st') \<and> extends st st'
         \<and> model_queries (rworld st') = model_queries (rworld st)"
proof -
  from drain_tool_calls_shape [of E mn step tcs st] obtain st' ms evs where
    h: "drain_tool_calls E mn step tcs st = (None, st')" "messages st' = messages st @ ms"
       "events st' = events st @ evs" "map fst evs = concat (replicate (length tcs) [Action, Observation])"
       "same_logs (rworld st) (rworld st')"
    by blast
  have "set (map fst evs) \<subseteq> {Action, Observation}"
    unfolding h(4) by (induction tcs) auto
  then have "list_all is_progress evs"
    by (auto simp: list_all_iff is_progress_def)
  with h show ?thesis
    by (auto simp: extends_def same_logs_def)
qed

lemma inline_extends:
  "\<exists>r st'. inline_tool_call E mn step tn ta st = (r, st') \<and> extends st st'
         \<and> model_queries (rworld st') = model_queries (rworld st)"
  using inline_tool_call_shape [of E mn step tn ta st]
  by (auto simp: extends_def same_logs_def)

lemma act_on_message_extends:
  "extends st (result_state (act_on_message E mn step message st))
   \<and> model_queries (rworld (result_state (act_on_message E mn step message st))) = model_queries (rworld st)"
proof (cases "tool_calls message \<noteq> []")
  case True
  from drain_extends [of E mn step "tool_calls message" st] obtain st' where
    "drain_tool_calls E mn step (tool_calls message) st = (None, st')" "extends st st'"
    "model_queries (rworld st') = model_queries (rworld st)" by blast
  then show ?thesis
    using True by (simp add: act_on_message_def)
next
  case False
  show ?thesis
  proof (cases "content message \<noteq> []")
    case c: True
    show ?thesis
    proof (cases "parse_inline_tool_call E (content message)")
      case (Inl e)
      then show ?thesis using False c by (simp add: act_on_message_def extends_refl)
    next
      case (Inr p)
      show ?thesis
      proof (cases p)
        case None
        then show ?thesis using False c Inr by (simp add: act_on_message_def extends_refl)
      next
        case (Some na)
        obtain n a where na: "na = (n, a)" by (cases na)
        from inline_extends [of E mn step n a st] obtain r st' where
          "inline_tool_call E mn step n a st = (r, st')" "extends st st'"
          "model_queries (rworld st') = model_queries (rworld st)" by blast
        then show ?thesis
          using False c Inr Some na by (cases r) (simp_all add: act_on_message_def)
      qed
    qed
  next
    case c: False
    then show ?thesis using False by (simp add: act_on_message_def extends_refl)
  qed
qed

lemma react_step_extends:
  "extends st (result_state (react_step E mn sch step st))
   \<and> model_queries (rworld (result_state (react_step E mn sch step st))) = Suc (model_queries (rworld st))"
proof (cases "chat E (rworld (begin_step mn step st)) mn (messages (begin_step mn step st)) sch")
  case (Inl e)
  then show ?thesis
    by (simp add: react_step_def Let_def begin_step_extends)
next
  case (Inr message)
  have "extends st (note_thought step message (begin_step mn step st))"
    using extends_trans [OF begin_step_extends(1) note_thought_extends(1)] .
  then show ?thesis
    using Inr act_on_message_extends [of "note_thought step message (begin_step mn step st)" E mn step message]
          extends_trans
    by (auto simp: react_step_def Let_def begin_step_extends(2) note_thought_extends(2))
qed

lemma react_loop_extends:
  "extends st (snd (snd (react_loop E mn sch n step st)))
   \<and> model_queries (rworld (snd (snd (react_loop E mn sch n step st)))) \<le> model_queries (rworld st) + n"
proof (induction n arbitrary: step st)
  case 0
  then show ?case by (simp add: extends_refl)
next
  case (Suc n)
  note rs = react_step_extends [of st E mn sch step]
  show ?case
  proof (cases "react_step E mn sch step st")
    case (Continue st')
    then show ?thesis
      using rs Suc.IH [of st' "Suc step"] extends_trans by auto
  next
    case (Break fa st')
    then show ?thesis using rs by simp
  next
    case (Raise e st')
    then show ?thesis using rs by simp
  qed
qed






subsection \<open>How a run ends\<close>

lemma run_of_facts:
  assumes "run_of E a p img w = (x, fa, st)"
  shows "list_all is_progress (events st)" "task_logs (rworld st) = task_logs w"
        "model_queries (rworld st) \<le> model_queries w + MAX_REACT_STEPS"
proof -
  let ?mn = "if ag_model_name a = [] then DEFAULT_MODEL_NAME else ag_model_name a"
  let ?st0 = "initial_state E a p img w"
  have st: "st = snd (snd (react_loop E ?mn (get_tool_schemas E a) MAX_REACT_STEPS 0 ?st0))"
    using assms by (simp add: run_of_def)
  have init: "events ?st0 = []" "rworld ?st0 = w"
    by (simp_all add: initial_state_def)
  from react_loop_extends [of ?st0 E ?mn "get_tool_schemas E a" MAX_REACT_STEPS 0]
  show "list_all is_progress (events st)" "task_logs (rworld st) = task_logs w"
       "model_queries (rworld st) \<le> model_queries w + MAX_REACT_STEPS"
    unfolding st [symmetric] by (auto simp: extends_def init)
qed

lemma agent_events_lookup_raises:
  "db_get_agent E w aid = Inl e \<Longrightarrow> agent_events E aid p img w = ([fatal_event e, DONE_EVENT], w)"
  by (simp add: agent_events_def)

lemma agent_events_not_found:
  "db_get_agent E w aid = Inr None \<Longrightarrow>
   agent_events E aid p img w =
     ([(Error, ''Agent #'' @ str_int aid @ '' not found.''), DONE_EVENT, DONE_EVENT], w)"
  by (simp add: agent_events_def)

lemma agent_events_loop_raises:
  "db_get_agent E w aid = Inr (Some a) \<Longrightarrow> run_of E a p img w = (Some e, fa, st) \<Longrightarrow>
   agent_events E aid p img w = (events st @ [fatal_event e, DONE_EVENT], rworld st)"
  by (simp add: agent_events_def)

lemma agent_events_commit_raises:
  "db_get_agent E w aid = Inr (Some a) \<Longrightarrow> run_of E a p img w = (None, fa, st) \<Longrightarrow>
   db_commit E (rworld st) (ag_id a) p (py_join [nl] (thought_log st)) (answer_of fa) = Inl e \<Longrightarrow>
   agent_events E aid p img w = (events st @ [fatal_event e, DONE_EVENT], rworld st)"
  by (simp add: agent_events_def)

lemma agent_events_completes:
  "db_get_agent E w aid = Inr (Some a) \<Longrightarrow> run_of E a p img w = (None, fa, st) \<Longrightarrow>
   db_commit E (rworld st) (ag_id a) p (py_join [nl] (thought_log st)) (answer_of fa) = Inr new_id \<Longrightarrow>
   agent_events E aid p img w =
     (events st @
        [(Final, json_dumps E (final_payload new_id (ag_id a) (answer_of fa) (last_artifact_path st))),
         DONE_EVENT],
      (rworld st)\<lparr>task_logs := task_logs (rworld st) @ [new_log new_id a p st fa]\<rparr>)"
  by (simp add: agent_events_def)

text \<open>The five ways a run can end.\<close>

lemma agent_events_cases:
  obtains
    (lookup_raises) e where "db_get_agent E w aid = Inl e" "\<not> completes E aid p img w"
  | (not_found) "db_get_agent E w aid = Inr None" "\<not> completes E aid p img w"
  | (loop_raises) a e fa st where "db_get_agent E w aid = Inr (Some a)"
      "run_of E a p img w = (Some e, fa, st)" "\<not> completes E aid p img w"
  | (commit_raises) a fa st e where "db_get_agent E w aid = Inr (Some a)"
      "run_of E a p img w = (None, fa, st)"
      "db_commit E (rworld st) (ag_id a) p (py_join [nl] (thought_log st)) (answer_of fa) = Inl e"
      "\<not> completes E aid p img w"
  | (completed) a fa st new_id where "db_get_agent E w aid = Inr (Some a)"
      "run_of E a p img w = (None, fa, st)"
      "db_commit E (rworld st) (ag_id a) p (py_join [nl] (thought_log st)) (answer_of fa) = Inr new_id"
      "completes E aid p img w"
proof (cases "db_get_agent E w aid")
  case (Inl e)
  then show ?thesis using lookup_raises by (simp add: completes_def)
next
  case (Inr oa)
  show ?thesis
  proof (cases oa)
    case None
    then show ?thesis using Inr not_found by (simp add: completes_def)
  next
    case (Some a)
    obtain x fa st where r: "run_of E a p img w = (x, fa, st)"
      by (cases "run_of E a p img w") auto
    show ?thesis
    proof (cases x)
      case e: (Some e)
      then show ?thesis using Inr Some r loop_raises [of a e fa st] by (simp add: completes_def)
    next
      case n: None
      show ?thesis
      proof (cases "db_commit E (rworld st) (ag_id a) p (py_join [nl] (thought_log st)) (answer_of fa)")
        case (Inl e)
        then show ?thesis using Inr Some r n commit_raises [of a fa st e] by (simp add: completes_def)
      next
        case c: (Inr new_id)
        then show ?thesis using Inr Some r n completed [of a fa st new_id] by (simp add: completes_def)
      qed
    qed
  qed
qed

lemma fatal_event_kind [simp]: "fst (fatal_event e) = Error"
  by (simp add: fatal_event_def)

text \<open>
  C1 (as amended). Every run of the reasoning loop ends, after at most the configured
  maximum number of model queries, and the last event of its stream is the done event on
  every exit path; the frames of the stream are its events in order. When the lookup of
  the agent returns an agent or raises, the events are thoughts, actions and
  observations, then exactly one event that is a final or an error event, then exactly
  one done event; the event before the done event is the final event exactly when the run
  completes (the agent exists, no exception leaves the loop, the task log row is
  committed), and an error event otherwise. When the agent is not found, the stream
  begins with the error event and holds no final event.
\<close>

theorem stream_ends_with_done:
  "fst (agent_events E aid p img w) \<noteq> []
   \<and> last (fst (agent_events E aid p img w)) = DONE_EVENT
   \<and> fst (stream_agent_task E aid p img w) = map sse (fst (agent_events E aid p img w))
   \<and> model_queries (snd (agent_events E aid p img w)) \<le> model_queries w + MAX_REACT_STEPS
   \<and> (db_get_agent E w aid \<noteq> Inr None \<longrightarrow>
        (\<exists>body ev.
            fst (agent_events E aid p img w) = body @ [ev, DONE_EVENT]
          \<and> list_all is_progress body
          \<and> (fst ev = Final \<or> fst ev = Error)
          \<and> (fst ev = Final \<longleftrightarrow> completes E aid p img w)))
   \<and> (db_get_agent E w aid = Inr None \<longrightarrow>
          hd (fst (agent_events E aid p img w)) = (Error, ''Agent #'' @ str_int aid @ '' not found.'')
        \<and> list_all (\<lambda>ev. fst ev \<noteq> Final) (fst (agent_events E aid p img w)))"
proof -
  have frames: "fst (stream_agent_task E aid p img w) = map sse (fst (agent_events E aid p img w))"
    by (simp add: stream_agent_task_def split: prod.splits)
  show ?thesis
  proof (cases rule: agent_events_cases [of E w aid p img])
    case (lookup_raises e)
    have "\<exists>body ev. fst (agent_events E aid p img w) = body @ [ev, DONE_EVENT]
          \<and> list_all is_progress body
          \<and> (fst ev = Final \<or> fst ev = Error)
          \<and> (fst ev = Final \<longleftrightarrow> completes E aid p img w)"
      apply (rule exI [of _ "[]"], rule exI [of _ "fatal_event e"])
      using lookup_raises by (simp add: agent_events_lookup_raises)
    then show ?thesis
      using lookup_raises frames by (simp add: agent_events_lookup_raises)
  next
    case not_found
    then show ?thesis
      using frames by (simp add: agent_events_not_found DONE_EVENT_def)
  next
    case (loop_raises a e fa st)
    have "\<exists>body ev. fst (agent_events E aid p img w) = body @ [ev, DONE_EVENT]
          \<and> list_all is_progress body
          \<and> (fst ev = Final \<or> fst ev = Error)
          \<and> (fst ev = Final \<longleftrightarrow> completes E aid p img w)"
      apply (rule exI [of _ "events st"], rule exI [of _ "fatal_event e"])
      using loop_raises run_of_facts [OF loop_raises(2)]
      by (simp add: agent_events_loop_raises)
    then show ?thesis
      using loop_raises frames run_of_facts [OF loop_raises(2)]
      by (simp add: agent_events_loop_raises)
  next
    case (commit_raises a fa st e)
    have "\<exists>body ev. fst (agent_events E aid p img w) = body @ [ev, DONE_EVENT]
          \<and> list_all is_progress body
          \<and> (fst ev = Final \<or> fst ev = Error)
          \<and> (fst ev = Final \<longleftrightarrow> completes E aid p img w)"
      apply (rule exI [of _ "events st"], rule exI [of _ "fatal_event e"])
      using commit_raises run_of_facts [OF commit_raises(2)]
      by (simp add: agent_events_commit_raises)
    then show ?thesis
      using commit_raises frames run_of_facts [OF commit_raises(2)]
      by (simp add: agent_events_commit_raises)
  next
    case (completed a fa st new_id)
    have "\<exists>body ev. fst (agent_events E aid p img w) = body @ [ev, DONE_EVENT]
          \<and> list_all is_progress body
          \<and> (fst ev = Final \<or> fst ev = Error)
          \<and> (fst ev = Final \<longleftrightarrow> completes E aid p img w)"
      apply (rule exI [of _ "events st"])
      apply (rule exI [of _ "(Final, json_dumps E (final_payload new_id (ag_id a) (answer_of fa) (last_artifact_path st)))"])
      using completed run_of_facts [OF completed(2)]
      by (simp add: agent_events_completes)
    then show ?thesis
      using completed frames run_of_facts [OF completed(2)]
      by (simp add: agent_events_completes)
  qed
qed

theorem stream_ends_with_done_witness:
  "(\<exists>body ev. fst (agent_events (demo_env silent []) 1 ''hi'' [] world0) = body @ [ev, DONE_EVENT]
       \<and> list_all is_progress body \<and> fst ev = Final)
   \<and> last (fst (agent_events (demo_env silent []) 7 ''hi'' [] world0)) = DONE_EVENT
   \<and> hd (fst (agent_events (demo_env silent []) 7 ''hi'' [] world0)) = (Error, ''Agent #7 not found.'')
   \<and> list_all (\<lambda>ev. fst ev \<noteq> Final) (fst (agent_events (demo_env silent []) 7 ''hi'' [] world0))"
proof -
  have c: "completes (demo_env silent []) 1 ''hi'' [] world0"
    by code_simp
  have f: "db_get_agent (demo_env silent []) world0 1 \<noteq> Inr None"
    by (simp add: demo_env_def)
  have n: "db_get_agent (demo_env silent []) world0 7 = Inr None"
    by (simp add: demo_env_def)
  have s: "str_int 7 = ''7''"
    by code_simp
  have A: "\<exists>body ev. fst (agent_events (demo_env silent []) 1 ''hi'' [] world0) = body @ [ev, DONE_EVENT]
       \<and> list_all is_progress body \<and> fst ev = Final"
    using stream_ends_with_done [of "demo_env silent []" 1 "''hi''" "[]" world0] c f by blast
  have B: "last (fst (agent_events (demo_env silent []) 7 ''hi'' [] world0)) = DONE_EVENT
   \<and> hd (fst (agent_events (demo_env silent []) 7 ''hi'' [] world0)) = (Error, ''Agent #7 not found.'')
   \<and> list_all (\<lambda>ev. fst ev \<noteq> Final) (fst (agent_events (demo_env silent []) 7 ''hi'' [] world0))"
    using stream_ends_with_done [of "demo_env silent []" 7 "''hi''" "[]" world0] n s by simp
  from A B show ?thesis by (intro conjI) simp_all
qed

text \<open>
  The claim as stated fails when the agent is not found: the stream is the error event
  followed by done events, and holds no final event.
\<close>

theorem stream_without_final_counterexample:
  "fst (agent_events (demo_env silent []) 7 ''hi'' [] world0)
     = [(Error, ''Agent #7 not found.''), (Done, ''[DONE]''), (Done, ''[DONE]'')]"
  by code_simp




subsection \<open>The synchronous wrapper\<close>

text \<open>
  C9. For a final answer of two lines, the stream carries the final event whose payload
  is the JSON text of the record (task log id 1, agent id 1, the answer, no artifact),
  in which \<open>json.dumps\<close> has written the line feed as a backslash and the letter n. The
  wrapper replaces every backslash followed by n in the data of a frame by a line feed,
  so the text it decodes has a raw line feed inside a string literal and is not JSON
  (the decoder used here knows the payload and would decode its unchanged text). The
  wrapper then returns the task log id -1 and, as the final output, the whole damaged
  JSON text. For an answer of one line the wrapper returns the decoded payload.
\<close>

theorem run_agent_task_loses_final_payload:
  "fst (agent_events (demo_env (answers two_lines) [final_payload 1 1 two_lines None]) 1 ''hi'' [] world0)
     = [(Thought, ''[Step 1] Querying model mistral:7b'' @ ellipsis),
        (Thought, two_lines),
        (Final, py_json_dumps (final_payload 1 1 two_lines None)),
        (Done, ''[DONE]'')]
   \<and> json_loads (demo_env (answers two_lines) [final_payload 1 1 two_lines None])
        (py_json_dumps (final_payload 1 1 two_lines None)) = Some (final_payload 1 1 two_lines None)
   \<and> parse_frame (sse (Final, py_json_dumps (final_payload 1 1 two_lines None)))
     = (''final'', ''{'' @ [CHR 0x22] @ ''task_log_id'' @ [CHR 0x22] @ '': 1, '' @ [CHR 0x22] @ ''agent_id'' @ [CHR 0x22]
          @ '': 1, '' @ [CHR 0x22] @ ''final_output'' @ [CHR 0x22] @ '': '' @ [CHR 0x22] @ two_lines @ [CHR 0x22]
          @ '', '' @ [CHR 0x22] @ ''artifact_path'' @ [CHR 0x22] @ '': null}'')
   \<and> fst (run_agent_task (demo_env (answers two_lines) [final_payload 1 1 two_lines None]) 1 ''hi'' [] world0)
     = Inr [(''task_log_id'', JInt (- 1)),
            (''agent_id'', JInt 1),
            (''final_output'', JStr (unescape_newlines (py_json_dumps (final_payload 1 1 two_lines None)))),
            (''artifact_path'', JNull),
            (''thought_process'', JStr (''[Step 1] Querying model mistral:7b'' @ ellipsis @ [nl] @ two_lines))]
   \<and> fst (run_agent_task (demo_env (answers ''ab'') [final_payload 1 1 ''ab'' None]) 1 ''hi'' [] world0)
     = Inr [(''task_log_id'', JInt 1),
            (''agent_id'', JInt 1),
            (''final_output'', JStr ''ab''),
            (''artifact_path'', JNull),
            (''thought_process'', JStr (''[Step 1] Querying model mistral:7b'' @ ellipsis @ [nl] @ ''ab''))]"
  by code_simp

subsection \<open>Scheduling\<close>

lemma map_of_dict_set: "map_of (dict_set d k v) k' = (if k' = k then Some v else map_of d k')"
  by (induction d) auto

lemma keys_dict_set:
  "map fst (dict_set d k v) = (if k \<in> set (map fst d) then map fst d else map fst d @ [k])"
  by (induction d) (auto simp: image_iff, force+)

lemma distinct_dict_set: "distinct (map fst d) \<Longrightarrow> distinct (map fst (dict_set d k v))"
  by (simp add: keys_dict_set)

lemma get_list_setdefault_append:
  "get_list (setdefault_append d k v) k' = (if k' = k then get_list d k @ [v] else get_list d k')"
  by (simp add: get_list_def setdefault_append_def map_of_dict_set)

lemma distinct_setdefault_append:
  "distinct (map fst d) \<Longrightarrow> distinct (map fst (setdefault_append d k v))"
  by (simp add: setdefault_append_def distinct_dict_set)

lemma get_list_all_empty: "get_list (map (\<lambda>(nid, n). (nid, [])) xs) c = []"
  by (induction xs) (auto simp: get_list_def)

lemma distinct_nodes_dict_aux: "distinct (map fst d) \<Longrightarrow> distinct (map fst (foldl (\<lambda>d n. dict_set d (n_id n) n) d ns))"
  by (induction ns arbitrary: d) (simp_all add: distinct_dict_set)

lemma distinct_empty_lists: "distinct (map fst (empty_lists g))"
proof -
  have "map fst (empty_lists g) = map fst (nodes_dict g)"
    by (simp add: empty_lists_def case_prod_unfold)
  then show ?thesis
    using distinct_nodes_dict_aux [of "[]" "g_nodes g"] by (simp add: nodes_dict_def)
qed

lemma foldl_incoming:
  "get_list (foldl (\<lambda>d (s, t). setdefault_append d t s) d0 es) c
     = get_list d0 c @ map fst (filter (\<lambda>(s, t). t = c) es)"
  by (induction es arbitrary: d0) (auto simp: get_list_setdefault_append)

lemma foldl_outgoing:
  "get_list (foldl (\<lambda>d (s, t). setdefault_append d s t) d0 es) p
     = get_list d0 p @ map snd (filter (\<lambda>(s, t). s = p) es)"
  by (induction es arbitrary: d0) (auto simp: get_list_setdefault_append)

lemma distinct_foldl_incoming:
  "distinct (map fst d0) \<Longrightarrow> distinct (map fst (foldl (\<lambda>d (s, t). setdefault_append d t s) d0 es))"
  by (induction es arbitrary: d0) (auto simp: distinct_setdefault_append)

lemma incoming_edges: "get_list (incoming g) c = map fst (filter (\<lambda>(s, t). t = c) (g_edges g))"
  by (simp add: incoming_def foldl_incoming empty_lists_def get_list_all_empty)

lemma outgoing_edges: "get_list (outgoing g) p = map snd (filter (\<lambda>(s, t). s = p) (g_edges g))"
  by (simp add: outgoing_def foldl_outgoing empty_lists_def get_list_all_empty)

lemma parents_iff: "p \<in> set (get_list (incoming g) c) \<longleftrightarrow> (p, c) \<in> set (g_edges g)"
  by (force simp: incoming_edges)

lemma children_iff: "c \<in> set (get_list (outgoing g) p) \<longleftrightarrow> (p, c) \<in> set (g_edges g)"
  by (force simp: outgoing_edges)

lemma distinct_incoming: "distinct (map fst (incoming g))"
  by (simp add: incoming_def distinct_foldl_incoming distinct_empty_lists)

lemma initial_ready_no_parents:
  assumes "nid \<in> set (initial_ready g)"
  shows "get_list (incoming g) nid = []"
proof -
  from assms have "(nid, []) \<in> set (incoming g)"
    by (auto simp: initial_ready_def)
  then have "map_of (incoming g) nid = Some []"
    using distinct_incoming by simp
  then show ?thesis
    by (simp add: get_list_def)
qed

lemma runnableI: "(\<And>p. (p, c) \<in> set (g_edges g) \<Longrightarrow> p \<in> runnable g) \<Longrightarrow> c \<in> runnable g"
  unfolding runnable_def by (rule accI)

lemma wf_child_order: "wf (child_order g)"
proof -
  let ?R = "set (g_edges g)"
  let ?T = "{(p, c). (p, c) \<in> ?R \<and> c \<in> Wellfounded.acc ?R}"
  have "x \<in> Wellfounded.acc ?T" for x
  proof (cases "x \<in> Wellfounded.acc ?R")
    case True
    have "?T \<subseteq> ?R" by auto
    then have "Wellfounded.acc ?R \<subseteq> Wellfounded.acc ?T" by (rule acc_subset)
    with True show ?thesis by auto
  next
    case False
    then show ?thesis
      by (auto intro: Wellfounded.accI [of x])
  qed
  then have "\<forall>x. x \<in> Wellfounded.acc ?T" ..
  then have "wf ?T"
    by (rule acc_wfI)
  then have "acyclic ?T"
    by (rule wf_acyclic)
  moreover have "finite ?T"
    by (rule finite_subset [of _ ?R]) auto
  ultimately have "wf (?T\<inverse>)"
    by (rule finite_acyclic_wf_converse [rotated])
  moreover have "?T\<inverse> = child_order g"
    by (auto simp: child_order_def runnable_def)
  ultimately show ?thesis by simp
qed

lemma ready_children_runnable:
  assumes "done \<subseteq> runnable g" "c \<in> set (ready_children g done nid)"
  shows "(c, nid) \<in> child_order g"
proof -
  from assms(2) have edge: "(nid, c) \<in> set (g_edges g)"
    and all: "\<forall>p \<in> set (get_list (incoming g) c). p \<in> done"
    by (auto simp: ready_children_def children_iff list_all_iff)
  have "c \<in> runnable g"
  proof (rule runnableI)
    fix p assume "(p, c) \<in> set (g_edges g)"
    then have "p \<in> set (get_list (incoming g) c)" by (simp add: parents_iff)
    with all assms(1) show "p \<in> runnable g" by auto
  qed
  with edge show ?thesis by (simp add: child_order_def)
qed

lemma run_ready_terminates:
  assumes "set (ready st) \<subseteq> runnable g" "completed st \<subseteq> runnable g"
  shows "\<exists>r. run_ready E g st = Some r"
proof -
  have wfM: "wf (inv_image (mult (child_order g)) (\<lambda>st. mset (ready st)))"
    by (rule wf_inv_image [OF wf_mult [OF wf_child_order]])
  from wfM assms show ?thesis
  proof (induction st rule: wf_induct_rule)
    case (less st)
    show ?case
    proof (cases "ready st")
      case Nil
      then show ?thesis by (subst run_ready.simps) simp
    next
      case (Cons nid rest)
      show ?thesis
      proof (cases "map_of (nodes_dict g) nid")
        case None
        then show ?thesis using Cons by (subst run_ready.simps) simp
      next
        case (Some n)
        obtain r w' where ex: "execute_node E (n_type n) (n_key n) (node_config E n)
                       (merge_inputs (input_payloads g st nid)) (xworld st) = (r, w')"
          by (cases "execute_node E (n_type n) (n_key n) (node_config E n)
                       (merge_inputs (input_payloads g st nid)) (xworld st)")
        show ?thesis
        proof (cases r)
          case (Inl e)
          then show ?thesis using Cons Some ex by (subst run_ready.simps) simp
        next
          case (Inr result)
          define st' where "st' = st\<lparr>ready := rest @ ready_children g (insert nid (completed st)) nid,
                          results := dict_set (results st) nid result,
                          completed := insert nid (completed st),
                          executed := executed st @ [nid],
                          xworld := w'\<rparr>"
          have step: "run_ready E g st = run_ready E g st'"
            using Cons Some ex Inr by (subst run_ready.simps) (simp add: st'_def)
          have nid: "nid \<in> runnable g"
            using less.prems(1) Cons by simp
          have dn: "insert nid (completed st) \<subseteq> runnable g"
            using nid less.prems(2) by simp
          have kids: "\<forall>k \<in> set_mset (mset (ready_children g (insert nid (completed st)) nid)).
                        \<exists>j \<in> set_mset {#nid#}. (k, j) \<in> child_order g"
            using ready_children_runnable [OF dn] by simp
          have "(mset rest + mset (ready_children g (insert nid (completed st)) nid), mset rest + {#nid#})
                  \<in> mult (child_order g)"
            by (rule one_step_implies_mult [OF _ kids]) simp
          then have smaller: "(st', st) \<in> inv_image (mult (child_order g)) (\<lambda>st. mset (ready st))"
            using Cons by (simp add: st'_def)
          have r1: "set (ready st') \<subseteq> runnable g"
          proof -
            have "set (ready_children g (insert nid (completed st)) nid) \<subseteq> runnable g"
              using ready_children_runnable [OF dn] by (auto simp: child_order_def)
            then show ?thesis
              using less.prems(1) Cons by (auto simp: st'_def)
          qed
          have r2: "completed st' \<subseteq> runnable g"
            using dn by (simp add: st'_def)
          from less.IH [OF smaller r1 r2] step show ?thesis by simp
        qed
      qed
    qed
  qed
qed

lemma initial_ready_runnable: "set (initial_ready g) \<subseteq> runnable g"
proof
  fix nid assume "nid \<in> set (initial_ready g)"
  then have "get_list (incoming g) nid = []"
    by (rule initial_ready_no_parents)
  then have none: "\<And>p. (p, nid) \<notin> set (g_edges g)"
    using parents_iff [of _ g nid] by simp
  show "nid \<in> runnable g"
    by (rule runnableI) (simp add: none)
qed

lemma execute_graph_total: "\<exists>r. execute_graph E g w = Some r"
  unfolding execute_graph_def
  by (rule run_ready_terminates) (simp_all add: initial_ready_runnable)

lemma only_parent_incoming: "only_parent g p c \<Longrightarrow> set (get_list (incoming g) c) = {p}"
  using parents_iff [of _ g c] by (auto simp: only_parent_def)

lemma not_ready_child:
  assumes "only_parent g b a" "b \<notin> dn"
  shows "a \<notin> set (ready_children g dn nid)"
proof
  assume "a \<in> set (ready_children g dn nid)"
  then have "\<forall>p \<in> set (get_list (incoming g) a). p \<in> dn"
    by (simp add: ready_children_def list_all_iff)
  with only_parent_incoming [OF assms(1)] assms(2) show False by simp
qed

lemma step_untouched:
  assumes "only_parent g b a" "untouched a st" "untouched b st" "ready st = nid # rest"
  shows "untouched a (st\<lparr>ready := rest @ ready_children g (insert nid (completed st)) nid,
                          results := dict_set (results st) nid result,
                          completed := insert nid (completed st),
                          executed := executed st @ [nid],
                          xworld := w'\<rparr>)"
proof -
  have ne: "nid \<noteq> a" "nid \<noteq> b"
    using assms(2-4) by (auto simp: untouched_def)
  have "b \<notin> insert nid (completed st)"
    using ne assms(3) by (simp add: untouched_def)
  then have "a \<notin> set (ready_children g (insert nid (completed st)) nid)"
    by (rule not_ready_child [OF assms(1)])
  then show ?thesis
    using assms(2,4) ne by (auto simp: untouched_def keys_dict_set)
qed

lemma run_ready_untouched:
  assumes "run_ready E g st = Some r"
  shows "only_parent g b a \<and> only_parent g a b \<and> untouched a st \<and> untouched b st
         \<longrightarrow> untouched a (snd r) \<and> untouched b (snd r)"
proof (rule run_ready.raw_induct
    [where P = "\<lambda>E g st r. only_parent g b a \<and> only_parent g a b \<and> untouched a st \<and> untouched b st
                   \<longrightarrow> untouched a (snd r) \<and> untouched b (snd r)", OF _ assms])
  fix f :: "env \<Rightarrow> graph \<Rightarrow> exec_state \<Rightarrow> (exc option \<times> exec_state) option"
  fix E g st r
  assume IH: "\<And>E g st r. f E g st = Some r \<Longrightarrow>
                only_parent g b a \<and> only_parent g a b \<and> untouched a st \<and> untouched b st
                \<longrightarrow> untouched a (snd r) \<and> untouched b (snd r)"
  assume body: "(case ready st of
        [] \<Rightarrow> Some (None, st)
      | nid # rest \<Rightarrow>
          (case map_of (nodes_dict g) nid of
             None \<Rightarrow> Some (Some (PyExc ''KeyError'' nid), st\<lparr>ready := rest\<rparr>)
           | Some n \<Rightarrow>
               (case execute_node E (n_type n) (n_key n) (node_config E n)
                       (merge_inputs (input_payloads g st nid)) (xworld st) of
                  (Inl e, w') \<Rightarrow>
                    Some (Some e, st\<lparr>ready := rest, executed := executed st @ [nid], xworld := w'\<rparr>)
                | (Inr result, w') \<Rightarrow>
                    f E g
                      (st\<lparr>ready := rest @ ready_children g (insert nid (completed st)) nid,
                          results := dict_set (results st) nid result,
                          completed := insert nid (completed st),
                          executed := executed st @ [nid],
                          xworld := w'\<rparr>)))) = Some r"
  show "only_parent g b a \<and> only_parent g a b \<and> untouched a st \<and> untouched b st
         \<longrightarrow> untouched a (snd r) \<and> untouched b (snd r)"
  proof (intro impI, elim conjE)
    assume pa: "only_parent g b a" and pb: "only_parent g a b"
       and ua: "untouched a st" and ub: "untouched b st"
    show "untouched a (snd r) \<and> untouched b (snd r)"
    proof (cases "ready st")
      case Nil
      then show ?thesis using body ua ub by auto
    next
      case (Cons nid rest)
      have ne: "nid \<noteq> a" "nid \<noteq> b"
        using ua ub Cons by (auto simp: untouched_def)
      show ?thesis
      proof (cases "map_of (nodes_dict g) nid")
        case None
        then have "r = (Some (PyExc ''KeyError'' nid), st\<lparr>ready := rest\<rparr>)"
          using body Cons by simp
        then show ?thesis using ua ub Cons by (auto simp: untouched_def)
      next
        case (Some n)
        obtain x w' where ex: "execute_node E (n_type n) (n_key n) (node_config E n)
                       (merge_inputs (input_payloads g st nid)) (xworld st) = (x, w')"
          by (cases "execute_node E (n_type n) (n_key n) (node_config E n)
                       (merge_inputs (input_payloads g st nid)) (xworld st)")
        show ?thesis
        proof (cases x)
          case (Inl e)
          then have "r = (Some e, st\<lparr>ready := rest, executed := executed st @ [nid], xworld := w'\<rparr>)"
            using body Cons Some ex by simp
          then show ?thesis using ua ub Cons ne by (auto simp: untouched_def)
        next
          case (Inr result)
          define st' where "st' = st\<lparr>ready := rest @ ready_children g (insert nid (completed st)) nid,
                          results := dict_set (results st) nid result,
                          completed := insert nid (completed st),
                          executed := executed st @ [nid],
                          xworld := w'\<rparr>"
          have rec: "f E g st' = Some r"
            using body Cons Some ex Inr by (simp add: st'_def)
          have "untouched a st'" "untouched b st'"
            unfolding st'_def
            using step_untouched [OF pa ua ub Cons] step_untouched [OF pb ub ua Cons] by simp_all
          with IH [OF rec] pa pb show ?thesis by simp
        qed
      qed
    qed
  qed
qed

lemma initial_untouched:
  assumes "only_parent g b a"
  shows "untouched a \<lparr>ready = initial_ready g, results = [], completed = {}, executed = [], xworld = w\<rparr>"
proof -
  have "a \<notin> set (initial_ready g)"
  proof
    assume "a \<in> set (initial_ready g)"
    then have "get_list (incoming g) a = []" by (rule initial_ready_no_parents)
    with only_parent_incoming [OF assms] show False by simp
  qed
  then show ?thesis by (simp add: untouched_def)
qed

text \<open>
  C6. For every graph (a finite list of nodes and a finite list of edges), every
  environment and every world, \<open>execute_graph\<close> leaves its loop: it returns, or a node
  behaviour (or the lookup of a node that an edge names but the graph lacks) raises. If
  two nodes are each other's only parent, neither of them is ever executed, and neither
  is a key of the results.
\<close>

theorem execute_graph_terminates:
  "(\<exists>r. execute_graph E g w = Some r)
   \<and> (\<forall>x st. only_parent g b a \<and> only_parent g a b \<and> execute_graph E g w = Some (x, st) \<longrightarrow>
          a \<notin> set (executed st) \<and> b \<notin> set (executed st)
        \<and> a \<notin> set (map fst (results st)) \<and> b \<notin> set (map fst (results st)))"
proof (rule conjI, rule execute_graph_total, intro allI impI)
  fix x st
  assume h: "only_parent g b a \<and> only_parent g a b \<and> execute_graph E g w = Some (x, st)"
  let ?st0 = "\<lparr>ready = initial_ready g, results = [], completed = {}, executed = [], xworld = w\<rparr>"
  from h have run: "run_ready E g ?st0 = Some (x, st)"
    by (simp add: execute_graph_def)
  from run_ready_untouched [OF run, of b a] h initial_untouched [of g b a w] initial_untouched [of g a b w]
  have "untouched a st \<and> untouched b st" by simp
  then show "a \<notin> set (executed st) \<and> b \<notin> set (executed st)
        \<and> a \<notin> set (map fst (results st)) \<and> b \<notin> set (map fst (results st))"
    by (simp add: untouched_def)
qed

lemmas graph_defs = initial_ready_def incoming_def outgoing_def empty_lists_def nodes_dict_def
  setdefault_append_def get_list_def demo_graph_def execute_node_def node_config_def py_or_def
  merge_inputs_def input_payloads_def ready_children_def dict_get_def demo_env_def world0_def
  List.map_filter_def

lemma demo_graph_run:
  "execute_graph (demo_env silent []) demo_graph world0
     = Some (None, \<lparr>ready = [], results = [(''n1'', JStr ''http://x''), (''n2'', JStr ''http://x'')],
                     completed = {''n1'', ''n2''}, executed = [''n1'', ''n2''], xworld = world0\<rparr>)"
  unfolding execute_graph_def
  apply (subst run_ready.simps)
  apply (simp add: graph_defs)
  apply (subst run_ready.simps)
  apply (simp add: graph_defs)
  apply (subst run_ready.simps)
  apply (simp add: graph_defs)
  apply auto
  done

theorem execute_graph_terminates_witness:
  "\<exists>x st. execute_graph (demo_env silent []) demo_graph world0 = Some (x, st)
      \<and> ''a'' \<notin> set (executed st) \<and> ''b'' \<notin> set (executed st)
      \<and> ''a'' \<notin> set (map fst (results st)) \<and> ''b'' \<notin> set (map fst (results st))"
proof -
  have pa: "only_parent demo_graph ''b'' ''a''" and pb: "only_parent demo_graph ''a'' ''b''"
    by (auto simp: only_parent_def demo_graph_def)
  from execute_graph_terminates [of "demo_env silent []" demo_graph world0 "''b''" "''a''"]
  obtain r where r: "execute_graph (demo_env silent []) demo_graph world0 = Some r"
    and rest: "\<And>x st. execute_graph (demo_env silent []) demo_graph world0 = Some (x, st) \<Longrightarrow>
          ''a'' \<notin> set (executed st) \<and> ''b'' \<notin> set (executed st)
        \<and> ''a'' \<notin> set (map fst (results st)) \<and> ''b'' \<notin> set (map fst (results st))"
    using pa pb by blast
  obtain x st where "r = (x, st)" by (cases r)
  with r rest [of x st] show ?thesis by blast
qed

end
